theory Spec2Isabelle
  imports Main "HOL-Library.AList" "HOL-Library.Char_ord" "HOL-Library.List_Lexorder"
begin

section \<open>Python strings and lists\<close>

text \<open>
  The driver (\<^verbatim>\<open>hil/ext/switches/dell-s3048.py\<close>) is Python 2. Its strings are
  modelled as \<^typ>\<open>string\<close>; every exception it can raise is a value of \<open>error\<close>.
\<close>

datatype error =
  BadArgumentError | AssertionError | ValueError | KeyError | IndexError
  | TypeError | NotFoundError | DuplicateError | AllocationError | RejectedError

definition LF :: char where
  "LF = CHR 0x0A"

definition CR :: char where
  "CR = CHR 0x0D"

definition is_digit :: "char \<Rightarrow> bool" where
  "is_digit c = (c \<in> set ''0123456789'')"

text \<open>\<^verbatim>\<open>s.replace(old, new)\<close> for a one-character \<open>old\<close>.\<close>

definition py_replace :: "char \<Rightarrow> string \<Rightarrow> string \<Rightarrow> string" where
  "py_replace old new s = concat (map (\<lambda>c. if c = old then new else [c]) s)"

text \<open>
  \<^verbatim>\<open>s.find(sub, start)\<close>: the lowest index at or after \<open>start\<close> where \<open>sub\<close>
  begins, or \<open>-1\<close>. A negative \<open>start\<close> counts from the end.
\<close>

fun find_at :: "string \<Rightarrow> string \<Rightarrow> nat \<Rightarrow> int" where
  "find_at sub [] i = (if sub = [] then int i else - 1)"
| "find_at sub (c # s) i =
     (if take (length sub) (c # s) = sub then int i else find_at sub s (Suc i))"

definition py_find :: "string \<Rightarrow> string \<Rightarrow> int \<Rightarrow> int" where
  "py_find s sub start =
     (let n = int (length s);
          b = (if start < 0 then max (start + n) 0 else start)
      in if n < b then - 1 else find_at sub (drop (nat b) s) (nat b))"

text \<open>\<^verbatim>\<open>s[begin:end]\<close> with Python's clamping of both indices.\<close>

definition py_index_norm :: "nat \<Rightarrow> int \<Rightarrow> nat" where
  "py_index_norm n i = (if i < 0 then nat (max (i + int n) 0) else min (nat i) n)"

definition py_slice :: "string \<Rightarrow> int \<Rightarrow> int \<Rightarrow> string" where
  "py_slice s b e =
     (let b' = py_index_norm (length s) b; e' = py_index_norm (length s) e
      in take (e' - b') (drop b' s))"

text \<open>\<^verbatim>\<open>s.split(sep)\<close> for a one-character separator.\<close>

fun py_split :: "char \<Rightarrow> string \<Rightarrow> string list" where
  "py_split sep [] = [[]]"
| "py_split sep (c # s) =
     (if c = sep then [] # py_split sep s
      else (case py_split sep s of
              [] \<Rightarrow> [[c]]
            | x # xs \<Rightarrow> (c # x) # xs))"

text \<open>
  \<^verbatim>\<open>s.splitlines()\<close> on the text of a response, which is a unicode string: a line
  ends at \<open>\r\n\<close> or at a single line boundary (\<open>\n\<close>, \<open>\r\<close>, \<open>\v\<close>, \<open>\f\<close>, the
  separators \<open>0x1c\<close> to \<open>0x1e\<close> and \<open>0x85\<close>, among the code points below 256); the
  boundaries are dropped and a trailing boundary opens no empty last line.
\<close>

definition is_linebreak :: "char \<Rightarrow> bool" where
  "is_linebreak c =
     (c \<in> set [LF, CR, CHR 0x0B, CHR 0x0C, CHR 0x1C, CHR 0x1D, CHR 0x1E, CHR 0x85])"

fun splitlines_from :: "string \<Rightarrow> string \<Rightarrow> string list" where
  "splitlines_from cur [] = (if cur = [] then [] else [cur])"
| "splitlines_from cur [c] = (if is_linebreak c then [cur] else [cur @ [c]])"
| "splitlines_from cur (c # d # s) =
     (if c = CR \<and> d = LF then cur # splitlines_from [] s
      else if is_linebreak c then cur # splitlines_from [] (d # s)
      else splitlines_from (cur @ [c]) (d # s))"

definition splitlines :: "string \<Rightarrow> string list" where
  "splitlines s = splitlines_from [] s"

text \<open>\<^verbatim>\<open>xs.index(x)\<close> raises ValueError when \<open>x\<close> is absent.\<close>

fun index_from :: "'a \<Rightarrow> 'a list \<Rightarrow> nat \<Rightarrow> error + nat" where
  "index_from x [] i = Inl ValueError"
| "index_from x (y # ys) i = (if y = x then Inr i else index_from x ys (Suc i))"

definition py_index :: "'a list \<Rightarrow> 'a \<Rightarrow> error + nat" where
  "py_index xs x = index_from x xs 0"

text \<open>\<^verbatim>\<open>xs[i]\<close> for a non-negative \<open>i\<close> raises IndexError out of range.\<close>

definition py_nth :: "'a list \<Rightarrow> nat \<Rightarrow> error + 'a" where
  "py_nth xs i = (if i < length xs then Inr (xs ! i) else Inl IndexError)"

section \<open>Regular expressions of the driver\<close>

text \<open>
  A backtracking matcher maps the text still to be read to the list of texts that may
  remain after it, in the order Python's \<^verbatim>\<open>re\<close> tries them (greedy first).
  \<^verbatim>\<open>re.match\<close> anchors at position 0 and succeeds when some alternative does.
\<close>

type_synonym matcher = "string \<Rightarrow> string list"

definition lit :: "string \<Rightarrow> matcher" where
  "lit p s = (if take (length p) s = p then [drop (length p) s] else [])"

text \<open>\<^verbatim>\<open>\d+\<close>: one or more digits, the longest run first.\<close>

fun digits1 :: matcher where
  "digits1 [] = []"
| "digits1 (c # s) = (if is_digit c then digits1 s @ [s] else [])"

definition opt :: "matcher \<Rightarrow> matcher" where
  "opt m s = m s @ [s]"

definition seq :: "matcher \<Rightarrow> matcher \<Rightarrow> matcher" where
  "seq m1 m2 s = concat (map m2 (m1 s))"

text \<open>\<^verbatim>\<open>^\<close> at position 0 of a \<^verbatim>\<open>match\<close> always holds.\<close>

definition bol :: matcher where
  "bol s = [s]"

text \<open>
  \<^verbatim>\<open>$\<close> without MULTILINE holds at the end of the text and also just before a
  newline that is the last character of the text.
\<close>

definition eol :: matcher where
  "eol s = (if s = [] \<or> s = [LF] then [s] else [])"

definition re_match :: "matcher \<Rightarrow> string \<Rightarrow> bool" where
  "re_match m s = (m s \<noteq> [])"

text \<open>\<^verbatim>\<open>r'^\d+/\d+(/\d+)?$'\<close>\<close>

definition port_re :: matcher where
  "port_re =
     seq bol (seq digits1 (seq (lit ''/'') (seq digits1
       (seq (opt (seq (lit ''/'') digits1)) eol))))"

text \<open>
  \<^verbatim>\<open>re.match(re.compile(r'vlan/(\d+)'), channel)\<close> followed by
  \<^verbatim>\<open>match.groups()[0]\<close>: \<open>None\<close> when there is no match, else the text of group 1
  in the first alternative that succeeds.
\<close>

definition vlan_re_group :: "string \<Rightarrow> string option" where
  "vlan_re_group channel =
     (case lit ''vlan/'' channel of
        [] \<Rightarrow> None
      | rest # _ \<Rightarrow>
          (case digits1 rest of
             [] \<Rightarrow> None
           | r # _ \<Rightarrow> Some (take (length rest - length r) rest)))"

section \<open>The Dell OS 9 driver\<close>

record port =
  label :: string

record switch =
  hostname :: string
  username :: string
  password :: string
  interface_type :: string
  ports :: "port list"

definition validate_port_name :: "string \<Rightarrow> error + unit" where
  "validate_port_name p =
     (if \<not> re_match port_re p then Inl BadArgumentError else Inr ())"

definition iftypes :: "(string \<times> string) list" where
  "iftypes =
     [(''GigabitEthernet'', ''gige-''), (''TenGigabitEthernet'', ''tengig-''),
      (''TwentyfiveGigabitEthernet'', ''twentyfivegig-''),
      (''fortyGigE'', ''fortygig-''), (''peGigabitEthernet'', ''pegig-''),
      (''FiftyGigabitEthernet'', ''fiftygig-''),
      (''HundredGigabitEthernet'', ''hundredgig-'')]"

definition convert_interface :: "string \<Rightarrow> error + string" where
  "convert_interface t =
     (case map_of iftypes t of None \<Rightarrow> Inl KeyError | Some v \<Rightarrow> Inr v)"

definition construct_url :: "switch \<Rightarrow> string option \<Rightarrow> string \<Rightarrow> error + string" where
  "construct_url self interface suffix =
     (case interface of
        None \<Rightarrow> Inr (hostname self @ ''/api/running/dell/_operations/cli'')
      | Some i \<Rightarrow>
          (case (if re_match port_re i
                 then (case convert_interface (interface_type self) of
                         Inl e \<Rightarrow> Inl e
                       | Inr t \<Rightarrow> Inr (py_replace (CHR ''/'') ''-'' i, t))
                 else Inr (i, ''vlan-'')) of
             Inl e \<Rightarrow> Inl e
           | Inr (i', t) \<Rightarrow>
               Inr (hostname self @ ''/api/running/dell/interfaces/interface/''
                    @ t @ i' @ (if suffix \<noteq> [] then ''/'' @ suffix else []))))"

definition make_payload :: "string \<Rightarrow> string \<Rightarrow> string" where
  "make_payload command command_type =
     ''<input><'' @ command @ ''>'' @ command_type @ ''</'' @ command @ ''></input>''"

definition CONFIG :: string where
  "CONFIG = ''config-commands''"

definition SHOW :: string where
  "SHOW = ''show-command''"

subsection \<open>The wire\<close>

text \<open>
  Every call of \<^verbatim>\<open>requests.request\<close> is recorded in the world, with what the
  driver prints and logs. The switch is a function from the requests already sent and
  the request at hand to its response: it always answers, so an exception of the
  \<^verbatim>\<open>requests\<close> library itself (no connection, timeout) is not part of the model.
\<close>

record request =
  req_method :: string
  req_url :: string
  req_data :: "string option"
  req_auth :: "string \<times> string"

record response =
  status_code :: int
  resp_text :: string

record world =
  sent :: "request list"
  printed :: "string list"
  logged :: "string list"

type_synonym device = "request list \<Rightarrow> request \<Rightarrow> response"

definition auth :: "switch \<Rightarrow> string \<times> string" where
  "auth self = (username self, password self)"

definition make_request ::
  "device \<Rightarrow> switch \<Rightarrow> string \<Rightarrow> string \<Rightarrow> string option \<Rightarrow> int list \<Rightarrow> world
    \<Rightarrow> response \<times> world" where
  "make_request dev self method url data acceptable_error_codes w =
     (let rq = \<lparr>req_method = method, req_url = url, req_data = data,
                 req_auth = auth self\<rparr>;
          r = dev (sent w) rq;
          w1 = w\<lparr>sent := sent w @ [rq]\<rparr>
      in if status_code r \<ge> 400 \<and> status_code r \<notin> set acceptable_error_codes
         then (r, w1\<lparr>printed := printed w1 @ [resp_text r],
                     logged := logged w1
                       @ [''Bad Request to switch. Response: '' @ resp_text r]\<rparr>)
         else (r, w1))"

subsection \<open>Slow path: CLI commands over REST\<close>

text \<open>
  A driver method returns its value or the exception it raised, together with the
  world it left behind.
\<close>

type_synonym 'a result = "(error + 'a) \<times> world"

definition get_vlans :: "device \<Rightarrow> switch \<Rightarrow> string \<Rightarrow> world \<Rightarrow> (string \<times> string) list result" where
  "get_vlans dev self interface w =
     (case construct_url self None [] of
        Inl e \<Rightarrow> (Inl e, w)
      | Inr url \<Rightarrow>
          (let command = ''interfaces switchport '' @ interface_type self @ '' '' @ interface;
               payload = make_payload SHOW command;
               (response, w') = make_request dev self ''POST'' url (Some payload) [] w;
               lines = splitlines (py_replace (CHR '' '') [] (resp_text response))
           in case py_index lines ''Vlanmembership:'' of
                Inl e \<Rightarrow> (Inl e, w')
              | Inr i \<Rightarrow>
                  (case py_nth lines (i + 3) of
                     Inl e \<Rightarrow> (Inl e, w')
                   | Inr line \<Rightarrow>
                       (let vlan_list = py_split (CHR '','') (py_replace (CHR ''T'') [] line)
                        in (Inr (map (\<lambda>x. (''vlan/'' @ x, x)) vlan_list), w')))))"

text \<open>
  The text scraping of \<^verbatim>\<open>_get_native_vlan\<close>: what stands between
  \<^verbatim>\<open>NativeVlanId:\<close> and the next full stop, spaces removed.
\<close>

definition native_vlan_of_text :: "string \<Rightarrow> string" where
  "native_vlan_of_text t =
     (let response = py_replace (CHR '' '') [] t;
          begin = py_find response ''NativeVlanId:'' 0 + int (length ''NativeVlanId:'');
          end' = py_find response ''.'' begin
      in py_slice response begin end')"

text \<open>
  The docstring of \<^verbatim>\<open>_get_native_vlan\<close> promises a tuple or \<open>None\<close> and its caller
  filters \<open>None\<close> out, so the value is an option; the only \<^verbatim>\<open>return\<close> gives a tuple.
\<close>

definition get_native_vlan ::
  "device \<Rightarrow> switch \<Rightarrow> string \<Rightarrow> world \<Rightarrow> (string \<times> string) option result" where
  "get_native_vlan dev self interface w =
     (case construct_url self None [] of
        Inl e \<Rightarrow> (Inl e, w)
      | Inr url \<Rightarrow>
          (let command = ''interfaces switchport '' @ interface_type self @ '' '' @ interface;
               payload = make_payload SHOW command;
               (response, w') = make_request dev self ''POST'' url (Some payload) [] w;
               vlan = native_vlan_of_text (resp_text response)
           in (Inr (Some (''vlan/native'', vlan)), w')))"

definition add_vlan_to_trunk :: "device \<Rightarrow> switch \<Rightarrow> string \<Rightarrow> string \<Rightarrow> world \<Rightarrow> unit result" where
  "add_vlan_to_trunk dev self interface vlan w =
     (case construct_url self None [] of
        Inl e \<Rightarrow> (Inl e, w)
      | Inr url \<Rightarrow>
          (let command = ''interface vlan '' @ vlan @ [CR, LF] @ '' tagged ''
                 @ interface_type self @ '' '' @ interface;
               payload = make_payload CONFIG command
           in (Inr (), snd (make_request dev self ''POST'' url (Some payload) [] w))))"

definition remove_vlan_from_trunk :: "device \<Rightarrow> switch \<Rightarrow> string \<Rightarrow> string \<Rightarrow> world \<Rightarrow> unit result" where
  "remove_vlan_from_trunk dev self interface vlan w =
     (case construct_url self None [] of
        Inl e \<Rightarrow> (Inl e, w)
      | Inr url \<Rightarrow>
          (let command = ''interface vlan '' @ vlan @ [CR, LF] @ '' no tagged ''
                 @ interface_type self @ '' '' @ interface;
               payload = make_payload CONFIG command
           in (Inr (), snd (make_request dev self ''POST'' url (Some payload) [] w))))"

definition set_native_vlan :: "device \<Rightarrow> switch \<Rightarrow> string \<Rightarrow> string \<Rightarrow> world \<Rightarrow> unit result" where
  "set_native_vlan dev self interface vlan w =
     (case construct_url self None [] of
        Inl e \<Rightarrow> (Inl e, w)
      | Inr url \<Rightarrow>
          (let command = ''interface vlan '' @ vlan @ [CR, LF] @ '' untagged ''
                 @ interface_type self @ '' '' @ interface;
               payload = make_payload CONFIG command
           in (Inr (), snd (make_request dev self ''POST'' url (Some payload) [] w))))"

definition remove_native_vlan :: "device \<Rightarrow> switch \<Rightarrow> string \<Rightarrow> world \<Rightarrow> unit result" where
  "remove_native_vlan dev self interface w =
     (case get_native_vlan dev self interface w of
        (Inl e, w1) \<Rightarrow> (Inl e, w1)
      | (Inr None, w1) \<Rightarrow> (Inl TypeError, w1)
      | (Inr (Some (_, vlan)), w1) \<Rightarrow>
          (case construct_url self None [] of
             Inl e \<Rightarrow> (Inl e, w1)
           | Inr url \<Rightarrow>
               (let command = ''interface vlan '' @ vlan @ [CR, LF] @ '' no untagged ''
                      @ interface_type self @ '' '' @ interface;
                    payload = make_payload CONFIG command
                in (Inr (), snd (make_request dev self ''POST'' url (Some payload) [] w1)))))"

subsection \<open>Fast path: the interface resource\<close>

definition port_shutdown :: "device \<Rightarrow> switch \<Rightarrow> string \<Rightarrow> world \<Rightarrow> unit result" where
  "port_shutdown dev self interface w =
     (case construct_url self (Some interface) [] of
        Inl e \<Rightarrow> (Inl e, w)
      | Inr url \<Rightarrow>
          (case convert_interface (interface_type self) of
             Inl e \<Rightarrow> (Inl e, w)
           | Inr t \<Rightarrow>
               (let interface' = t @ py_replace (CHR ''/'') ''-'' interface;
                    payload = ''<interface><name>'' @ interface'
                      @ ''</name><portmode><hybrid>false''
                      @ ''</hybrid></portmode><shutdown>true</shutdown>''
                      @ ''</interface>''
                in (Inr (), snd (make_request dev self ''PUT'' url (Some payload) [] w)))))"

definition port_on :: "device \<Rightarrow> switch \<Rightarrow> string \<Rightarrow> world \<Rightarrow> unit result" where
  "port_on dev self interface w =
     (case construct_url self (Some interface) [] of
        Inl e \<Rightarrow> (Inl e, w)
      | Inr url \<Rightarrow>
          (case convert_interface (interface_type self) of
             Inl e \<Rightarrow> (Inl e, w)
           | Inr t \<Rightarrow>
               (let interface' = t @ py_replace (CHR ''/'') ''-'' interface;
                    payload = ''<interface><name>'' @ interface'
                      @ ''</name><portmode><hybrid>true''
                      @ ''</hybrid></portmode><switchport></switchport>''
                      @ ''<shutdown>false</shutdown></interface>''
                in (Inr (), snd (make_request dev self ''PUT'' url (Some payload) [] w)))))"

subsection \<open>The driver's public operations\<close>

definition modify_port ::
  "device \<Rightarrow> switch \<Rightarrow> string \<Rightarrow> string \<Rightarrow> string option \<Rightarrow> world \<Rightarrow> unit result" where
  "modify_port dev self port channel network_id w =
     (case filter (\<lambda>p. label p = port) (ports self) of
        [p] \<Rightarrow>
          (let interface = label p
           in if channel = ''vlan/native''
              then (case network_id of
                      None \<Rightarrow> remove_native_vlan dev self interface w
                    | Some n \<Rightarrow> set_native_vlan dev self interface n w)
              else (case vlan_re_group channel of
                      None \<Rightarrow> (Inl AssertionError, w)
                    | Some vlan_id \<Rightarrow>
                        (case network_id of
                           None \<Rightarrow> remove_vlan_from_trunk dev self interface vlan_id w
                         | Some n \<Rightarrow>
                             if n = vlan_id
                             then add_vlan_to_trunk dev self interface vlan_id w
                             else (Inl AssertionError, w))))
      | _ \<Rightarrow> (Inl ValueError, w))"

definition revert_port :: "device \<Rightarrow> switch \<Rightarrow> string \<Rightarrow> world \<Rightarrow> unit result" where
  "revert_port dev self port w =
     (case port_shutdown dev self port w of
        (Inl e, w') \<Rightarrow> (Inl e, w')
      | (Inr _, w') \<Rightarrow> port_on dev self port w')"

text \<open>\<^verbatim>\<open>filter(None, xs)\<close> keeps the elements Python takes for true.\<close>

definition truthy :: "(string \<times> string) option \<Rightarrow> bool" where
  "truthy v = (v \<noteq> None)"

fun get_port_networks_loop ::
  "device \<Rightarrow> switch \<Rightarrow> port list \<Rightarrow> (port \<rightharpoonup> (string \<times> string) list) \<Rightarrow> world
    \<Rightarrow> (port \<rightharpoonup> (string \<times> string) list) result" where
  "get_port_networks_loop dev self [] response w = (Inr response, w)"
| "get_port_networks_loop dev self (p # ps) response w =
     (case get_native_vlan dev self (label p) w of
        (Inl e, w1) \<Rightarrow> (Inl e, w1)
      | (Inr native, w1) \<Rightarrow>
          (case get_vlans dev self (label p) w1 of
             (Inl e, w2) \<Rightarrow> (Inl e, w2)
           | (Inr vlans, w2) \<Rightarrow>
               get_port_networks_loop dev self ps
                 (response(p \<mapsto> map the (filter truthy [native]) @ vlans)) w2))"

definition get_port_networks ::
  "device \<Rightarrow> switch \<Rightarrow> port list \<Rightarrow> world \<Rightarrow> (port \<rightharpoonup> (string \<times> string) list) result" where
  "get_port_networks dev self ps w = get_port_networks_loop dev self ps Map.empty w"

section \<open>The resource registry\<close>

text \<open>
  Modelled from the spec: the registry (\<^verbatim>\<open>haas/api.py\<close> and \<^verbatim>\<open>haas/model.py\<close>) is not
  among the sources; only its unit tests are. The entity graph and every operation
  below follow sections 3, 4.1 and 7 of the specification, and the unit tests where they
  decide a case: a Nic label is looked up under its node, and two nodes may each own a
  Nic of the same label. Each table is an association list in creation order, read
  with \<open>map_of\<close>. A relationship the specification describes from both ends is stored
  at both ends. An operation checks every precondition before it changes anything and
  returns the error or the new graph; a delete that the specification rejects without
  naming the error returns \<open>RejectedError\<close>. The call to the fabric controller that a
  successful network attachment triggers is outside this model.
\<close>

type_synonym label = string

record project_rec =
  proj_group :: label
  proj_headnode :: "label option"

record nic_rec =
  nic_mac :: string
  nic_network :: "label option"
  nic_port :: "(label \<times> label) option"

record hnic_rec =
  hnic_mac :: string
  hnic_network :: "label option"

record network_rec =
  net_project :: label
  net_ident :: string
  net_nics :: "(label \<times> label) set"
  net_hnics :: "(label \<times> label) set"

record registry =
  users :: "(label \<times> string) list"
  groups :: "label list"
  members :: "(label \<times> label) set"
  projects :: "(label \<times> project_rec) list"
  nodes :: "(label \<times> label option) list"
  nics :: "((label \<times> label) \<times> nic_rec) list"
  networks :: "(label \<times> network_rec) list"
  switches :: "(label \<times> string) list"
  swports :: "((label \<times> label) \<times> (label \<times> label) option) list"
  headnodes :: "(label \<times> label) list"
  hnics :: "((label \<times> label) \<times> hnic_rec) list"

text \<open>
  Modelled from the spec: the graph before any call: no entity and no relationship is
  assumed to exist until an operation creates it (section 3, lifecycle).
\<close>

definition empty_registry :: registry where
  "empty_registry =
     \<lparr>users = [], groups = [], members = {}, projects = [], nodes = [], nics = [],
      networks = [], switches = [], swports = [], headnodes = [], hnics = []\<rparr>"

subsection \<open>Groups and users\<close>

text \<open>
  Modelled from the spec: section 4.1, Group/User: create by label fails DuplicateError
  on an existing label.
\<close>

definition group_create :: "label \<Rightarrow> registry \<Rightarrow> error + registry" where
  "group_create g s =
     (if g \<in> set (groups s) then Inl DuplicateError
      else Inr (s\<lparr>groups := groups s @ [g]\<rparr>))"

text \<open>
  Modelled from the spec: section 4.1, Group/User: delete by label fails NotFoundError
  on an absent group; section 3: a delete is rejected while dependent relationships
  (members, owned projects) exist.
\<close>

definition group_delete :: "label \<Rightarrow> registry \<Rightarrow> error + registry" where
  "group_delete g s =
     (if g \<notin> set (groups s) then Inl NotFoundError
      else if (\<exists>m \<in> members s. fst m = g)
              \<or> list_ex (\<lambda>(p, r). proj_group r = g) (projects s)
      then Inl RejectedError
      else Inr (s\<lparr>groups := removeAll g (groups s)\<rparr>))"

text \<open>
  Modelled from the spec: section 4.1, Group/User: create by label fails DuplicateError
  on an existing label.
\<close>

definition user_create :: "label \<Rightarrow> string \<Rightarrow> registry \<Rightarrow> error + registry" where
  "user_create u secret s =
     (if map_of (users s) u \<noteq> None then Inl DuplicateError
      else Inr (s\<lparr>users := users s @ [(u, secret)]\<rparr>))"

text \<open>
  Modelled from the spec: section 4.1, Group/User: delete by label fails NotFoundError
  on an absent user; section 3: a delete is rejected while memberships exist.
\<close>

definition user_delete :: "label \<Rightarrow> registry \<Rightarrow> error + registry" where
  "user_delete u s =
     (if map_of (users s) u = None then Inl NotFoundError
      else if (\<exists>m \<in> members s. snd m = u) then Inl RejectedError
      else Inr (s\<lparr>users := AList.delete u (users s)\<rparr>))"

text \<open>
  Modelled from the spec: section 4.1, Group/User: adding a membership fails
  NotFoundError on an absent entity and DuplicateError on an existing membership.
\<close>

definition group_add_user :: "label \<Rightarrow> label \<Rightarrow> registry \<Rightarrow> error + registry" where
  "group_add_user g u s =
     (if g \<notin> set (groups s) \<or> map_of (users s) u = None then Inl NotFoundError
      else if (g, u) \<in> members s then Inl DuplicateError
      else Inr (s\<lparr>members := insert (g, u) (members s)\<rparr>))"

text \<open>
  Modelled from the spec: section 4.1, Group/User: removing a membership fails
  NotFoundError on an absent entity or a membership that does not exist.
\<close>

definition group_remove_user :: "label \<Rightarrow> label \<Rightarrow> registry \<Rightarrow> error + registry" where
  "group_remove_user g u s =
     (if g \<notin> set (groups s) \<or> map_of (users s) u = None then Inl NotFoundError
      else if (g, u) \<notin> members s then Inl NotFoundError
      else Inr (s\<lparr>members := members s - {(g, u)}\<rparr>))"

subsection \<open>Projects and nodes\<close>

text \<open>
  Modelled from the spec: section 4.1, Project: create(label, owning group);
  DuplicateError on an existing label (section 7), NotFoundError on an absent group.
\<close>

definition project_create :: "label \<Rightarrow> label \<Rightarrow> registry \<Rightarrow> error + registry" where
  "project_create p g s =
     (if map_of (projects s) p \<noteq> None then Inl DuplicateError
      else if g \<notin> set (groups s) then Inl NotFoundError
      else Inr (s\<lparr>projects := projects s @ [(p, \<lparr>proj_group = g, proj_headnode = None\<rparr>)]\<rparr>))"

text \<open>
  Modelled from the spec: section 4.1, Project: delete requires no attached Nodes,
  Networks or Headnode; NotFoundError on an absent project.
\<close>

definition project_delete :: "label \<Rightarrow> registry \<Rightarrow> error + registry" where
  "project_delete p s =
     (case map_of (projects s) p of
        None \<Rightarrow> Inl NotFoundError
      | Some r \<Rightarrow>
          if list_ex (\<lambda>(n, q). q = Some p) (nodes s)
             \<or> list_ex (\<lambda>(n, N). net_project N = p) (networks s)
             \<or> proj_headnode r \<noteq> None
          then Inl RejectedError
          else Inr (s\<lparr>projects := AList.delete p (projects s)\<rparr>))"

text \<open>
  Modelled from the spec: section 4.1, Node: register by label; DuplicateError on an
  existing label. A new node has no owning project.
\<close>

definition node_register :: "label \<Rightarrow> registry \<Rightarrow> error + registry" where
  "node_register n s =
     (if map_of (nodes s) n \<noteq> None then Inl DuplicateError
      else Inr (s\<lparr>nodes := nodes s @ [(n, None)]\<rparr>))"

text \<open>
  Modelled from the spec: section 4.1, Project: connect fails NotFoundError if project
  or node is absent; a node already owned by a project is an occupied slot (section 7:
  DuplicateError).
\<close>

definition project_connect_node :: "label \<Rightarrow> label \<Rightarrow> registry \<Rightarrow> error + registry" where
  "project_connect_node p n s =
     (if map_of (projects s) p = None then Inl NotFoundError
      else (case map_of (nodes s) n of
              None \<Rightarrow> Inl NotFoundError
            | Some (Some q) \<Rightarrow> Inl DuplicateError
            | Some None \<Rightarrow> Inr (s\<lparr>nodes := AList.update n (Some p) (nodes s)\<rparr>)))"

text \<open>
  Modelled from the spec: section 4.1, Project: detach fails NotFoundError if project or
  node is absent or the node is not attached to that project.
\<close>

definition project_detach_node :: "label \<Rightarrow> label \<Rightarrow> registry \<Rightarrow> error + registry" where
  "project_detach_node p n s =
     (if map_of (projects s) p = None then Inl NotFoundError
      else (case map_of (nodes s) n of
              None \<Rightarrow> Inl NotFoundError
            | Some q \<Rightarrow>
                if q \<noteq> Some p then Inl NotFoundError
                else Inr (s\<lparr>nodes := AList.update n None (nodes s)\<rparr>)))"

text \<open>
  Modelled from the spec: section 3: a node with attached Nics may be deleted; the Nics
  go with it, out of the networks and off the ports they were on, so that no
  relationship dangles. A node still owned by a project must be detached first.
\<close>

definition node_delete :: "label \<Rightarrow> registry \<Rightarrow> error + registry" where
  "node_delete n s =
     (case map_of (nodes s) n of
        None \<Rightarrow> Inl NotFoundError
      | Some (Some q) \<Rightarrow> Inl RejectedError
      | Some None \<Rightarrow>
          Inr (s\<lparr>nodes := AList.delete n (nodes s),
                 nics := filter (\<lambda>(k, r). fst k \<noteq> n) (nics s),
                 networks := map (\<lambda>(l, N). (l, N\<lparr>net_nics := {k \<in> net_nics N. fst k \<noteq> n}\<rparr>))
                               (networks s),
                 swports := map (\<lambda>(k, b). (k, case b of
                                                  None \<Rightarrow> None
                                                | Some c \<Rightarrow> if fst c = n then None else Some c))
                              (swports s)\<rparr>))"

subsection \<open>Nics\<close>

text \<open>
  Modelled from the spec: section 4.1, Node: register_nic fails NotFoundError if the
  node is absent and DuplicateError if the Nic label is in use; the unit tests
  (test_node_register_nic_diff_nodes, test_node_delete_nic_wrong_node) decide that the
  label is scoped by its node.
\<close>

definition node_register_nic :: "label \<Rightarrow> label \<Rightarrow> string \<Rightarrow> registry \<Rightarrow> error + registry" where
  "node_register_nic n nic mac s =
     (if map_of (nodes s) n = None then Inl NotFoundError
      else if map_of (nics s) (n, nic) \<noteq> None then Inl DuplicateError
      else Inr (s\<lparr>nics := nics s @ [((n, nic),
                  \<lparr>nic_mac = mac, nic_network = None, nic_port = None\<rparr>)]\<rparr>))"

text \<open>
  Modelled from the spec: section 4.1, Node: delete_nic fails NotFoundError if the node
  is absent or the Nic is absent under that node; section 3: a delete is rejected while
  the Nic is attached to a network or bound to a port.
\<close>

definition node_delete_nic :: "label \<Rightarrow> label \<Rightarrow> registry \<Rightarrow> error + registry" where
  "node_delete_nic n nic s =
     (if map_of (nodes s) n = None then Inl NotFoundError
      else (case map_of (nics s) (n, nic) of
              None \<Rightarrow> Inl NotFoundError
            | Some r \<Rightarrow>
                if nic_network r \<noteq> None \<or> nic_port r \<noteq> None then Inl RejectedError
                else Inr (s\<lparr>nics := AList.delete (n, nic) (nics s)\<rparr>)))"

subsection \<open>Networks\<close>

text \<open>
  Modelled from the spec: section 4.1, Network: create(label, owning project); the
  identifier comes from the allocator, which is outside the registry:
  \<open>None\<close> stands for an allocator that has nothing left (section 7,
  AllocationError).
\<close>

definition network_create ::
  "label \<Rightarrow> label \<Rightarrow> string option \<Rightarrow> registry \<Rightarrow> error + registry" where
  "network_create net p allocated s =
     (if map_of (networks s) net \<noteq> None then Inl DuplicateError
      else if map_of (projects s) p = None then Inl NotFoundError
      else (case allocated of
              None \<Rightarrow> Inl AllocationError
            | Some i \<Rightarrow>
                Inr (s\<lparr>networks := networks s @ [(net,
                       \<lparr>net_project = p, net_ident = i, net_nics = {}, net_hnics = {}\<rparr>)]\<rparr>)))"

text \<open>
  Modelled from the spec: section 4.1, Network: delete requires no attached Nics or
  Hnics; NotFoundError on an absent network.
\<close>

definition network_delete :: "label \<Rightarrow> registry \<Rightarrow> error + registry" where
  "network_delete net s =
     (case map_of (networks s) net of
        None \<Rightarrow> Inl NotFoundError
      | Some N \<Rightarrow>
          if net_nics N \<noteq> {} \<or> net_hnics N \<noteq> {} then Inl RejectedError
          else Inr (s\<lparr>networks := AList.delete net (networks s)\<rparr>))"

text \<open>
  Modelled from the spec: section 4.1, network attachment: NotFoundError if node, Nic or
  network is absent, the node is in no project, or its project does not own the network;
  DuplicateError if the Nic is already attached to that or another network; on success
  both ends are set.
\<close>

definition node_connect_network ::
  "label \<Rightarrow> label \<Rightarrow> label \<Rightarrow> registry \<Rightarrow> error + registry" where
  "node_connect_network n nic net s =
     (case map_of (nodes s) n of
        None \<Rightarrow> Inl NotFoundError
      | Some q \<Rightarrow>
          (case map_of (nics s) (n, nic) of
             None \<Rightarrow> Inl NotFoundError
           | Some r \<Rightarrow>
               (case map_of (networks s) net of
                  None \<Rightarrow> Inl NotFoundError
                | Some N \<Rightarrow>
                    if q = None \<or> q \<noteq> Some (net_project N) then Inl NotFoundError
                    else if nic_network r \<noteq> None then Inl DuplicateError
                    else Inr (s\<lparr>nics := AList.update (n, nic) (r\<lparr>nic_network := Some net\<rparr>)
                                          (nics s),
                               networks := AList.update net
                                 (N\<lparr>net_nics := insert (n, nic) (net_nics N)\<rparr>)
                                 (networks s)\<rparr>))))"

text \<open>
  Modelled from the spec: section 4.1, network attachment: detach fails NotFoundError if
  the Nic is absent or attached to no network; on success both ends are cleared.
\<close>

definition node_detach_network :: "label \<Rightarrow> label \<Rightarrow> registry \<Rightarrow> error + registry" where
  "node_detach_network n nic s =
     (if map_of (nodes s) n = None then Inl NotFoundError
      else (case map_of (nics s) (n, nic) of
              None \<Rightarrow> Inl NotFoundError
            | Some r \<Rightarrow>
                (case nic_network r of
                   None \<Rightarrow> Inl NotFoundError
                 | Some net \<Rightarrow>
                     Inr (s\<lparr>nics := AList.update (n, nic) (r\<lparr>nic_network := None\<rparr>) (nics s),
                            networks := map (\<lambda>(l, N). (l, if l = net
                                then N\<lparr>net_nics := net_nics N - {(n, nic)}\<rparr> else N))
                              (networks s)\<rparr>))))"

subsection \<open>Headnodes and Hnics\<close>

text \<open>
  Modelled from the spec: section 4.1, Headnode: create fails NotFoundError if the
  project is absent, DuplicateError if the label is reused or the project already has a
  headnode.
\<close>

definition headnode_create :: "label \<Rightarrow> label \<Rightarrow> registry \<Rightarrow> error + registry" where
  "headnode_create h p s =
     (if map_of (headnodes s) h \<noteq> None then Inl DuplicateError
      else (case map_of (projects s) p of
              None \<Rightarrow> Inl NotFoundError
            | Some r \<Rightarrow>
                if proj_headnode r \<noteq> None then Inl DuplicateError
                else Inr (s\<lparr>headnodes := headnodes s @ [(h, p)],
                           projects := AList.update p (r\<lparr>proj_headnode := Some h\<rparr>)
                                         (projects s)\<rparr>)))"

text \<open>
  Modelled from the spec: section 4.1, Headnode: delete(label); a headnode is deleted
  with its Hnics, which leave the networks they were on.
\<close>

definition headnode_delete :: "label \<Rightarrow> registry \<Rightarrow> error + registry" where
  "headnode_delete h s =
     (case map_of (headnodes s) h of
        None \<Rightarrow> Inl NotFoundError
      | Some p \<Rightarrow>
          Inr (s\<lparr>headnodes := AList.delete h (headnodes s),
                 projects := map (\<lambda>(l, r). (l, if proj_headnode r = Some h
                                                then r\<lparr>proj_headnode := None\<rparr> else r))
                               (projects s),
                 hnics := filter (\<lambda>(k, r). fst k \<noteq> h) (hnics s),
                 networks := map (\<lambda>(l, N). (l, N\<lparr>net_hnics := {k \<in> net_hnics N. fst k \<noteq> h}\<rparr>))
                               (networks s)\<rparr>))"

text \<open>
  Modelled from the spec: section 4.1, Headnode: create_hnic is analogous to
  register_nic.
\<close>

definition headnode_create_hnic ::
  "label \<Rightarrow> label \<Rightarrow> string \<Rightarrow> registry \<Rightarrow> error + registry" where
  "headnode_create_hnic h hnic mac s =
     (if map_of (headnodes s) h = None then Inl NotFoundError
      else if map_of (hnics s) (h, hnic) \<noteq> None then Inl DuplicateError
      else Inr (s\<lparr>hnics := hnics s @ [((h, hnic),
                  \<lparr>hnic_mac = mac, hnic_network = None\<rparr>)]\<rparr>))"

text \<open>
  Modelled from the spec: section 4.1, Headnode: delete_hnic is analogous to delete_nic.
\<close>

definition headnode_delete_hnic :: "label \<Rightarrow> label \<Rightarrow> registry \<Rightarrow> error + registry" where
  "headnode_delete_hnic h hnic s =
     (if map_of (headnodes s) h = None then Inl NotFoundError
      else (case map_of (hnics s) (h, hnic) of
              None \<Rightarrow> Inl NotFoundError
            | Some r \<Rightarrow>
                if hnic_network r \<noteq> None then Inl RejectedError
                else Inr (s\<lparr>hnics := AList.delete (h, hnic) (hnics s)\<rparr>)))"

text \<open>
  Modelled from the spec: section 4.1, network attachment, for an Hnic: the headnode's
  project must own the network.
\<close>

definition headnode_connect_network ::
  "label \<Rightarrow> label \<Rightarrow> label \<Rightarrow> registry \<Rightarrow> error + registry" where
  "headnode_connect_network h hnic net s =
     (case map_of (headnodes s) h of
        None \<Rightarrow> Inl NotFoundError
      | Some p \<Rightarrow>
          (case map_of (hnics s) (h, hnic) of
             None \<Rightarrow> Inl NotFoundError
           | Some r \<Rightarrow>
               (case map_of (networks s) net of
                  None \<Rightarrow> Inl NotFoundError
                | Some N \<Rightarrow>
                    if p \<noteq> net_project N then Inl NotFoundError
                    else if hnic_network r \<noteq> None then Inl DuplicateError
                    else Inr (s\<lparr>hnics := AList.update (h, hnic) (r\<lparr>hnic_network := Some net\<rparr>)
                                           (hnics s),
                               networks := AList.update net
                                 (N\<lparr>net_hnics := insert (h, hnic) (net_hnics N)\<rparr>)
                                 (networks s)\<rparr>))))"

text \<open>
  Modelled from the spec: section 4.1, network attachment, for an Hnic.
\<close>

definition headnode_detach_network :: "label \<Rightarrow> label \<Rightarrow> registry \<Rightarrow> error + registry" where
  "headnode_detach_network h hnic s =
     (if map_of (headnodes s) h = None then Inl NotFoundError
      else (case map_of (hnics s) (h, hnic) of
              None \<Rightarrow> Inl NotFoundError
            | Some r \<Rightarrow>
                (case hnic_network r of
                   None \<Rightarrow> Inl NotFoundError
                 | Some net \<Rightarrow>
                     Inr (s\<lparr>hnics := AList.update (h, hnic) (r\<lparr>hnic_network := None\<rparr>)
                                      (hnics s),
                            networks := map (\<lambda>(l, N). (l, if l = net
                                then N\<lparr>net_hnics := net_hnics N - {(h, hnic)}\<rparr> else N))
                              (networks s)\<rparr>))))"

subsection \<open>Switches and ports\<close>

text \<open>
  Modelled from the spec: section 4.1, Switch: register(label, driver-config);
  DuplicateError on an existing label.
\<close>

definition switch_register :: "label \<Rightarrow> string \<Rightarrow> registry \<Rightarrow> error + registry" where
  "switch_register sw config s =
     (if map_of (switches s) sw \<noteq> None then Inl DuplicateError
      else Inr (s\<lparr>switches := switches s @ [(sw, config)]\<rparr>))"

text \<open>
  Modelled from the spec: section 4.1, Switch: delete(label) fails NotFoundError on an
  absent switch; section 3: deleting a switch with a bound Nic on one of its ports is
  rejected. Its ports go with it.
\<close>

definition switch_delete :: "label \<Rightarrow> registry \<Rightarrow> error + registry" where
  "switch_delete sw s =
     (if map_of (switches s) sw = None then Inl NotFoundError
      else if list_ex (\<lambda>(k, b). fst k = sw \<and> b \<noteq> None) (swports s) then Inl RejectedError
      else Inr (s\<lparr>switches := AList.delete sw (switches s),
                  swports := filter (\<lambda>(k, b). fst k \<noteq> sw) (swports s)\<rparr>))"

text \<open>
  Modelled from the spec: section 4.1, Port: register(switch, port-label); NotFoundError
  on an absent switch, DuplicateError on an existing (switch, port-label) pair.
\<close>

definition port_register :: "label \<Rightarrow> label \<Rightarrow> registry \<Rightarrow> error + registry" where
  "port_register sw p s =
     (if map_of (switches s) sw = None then Inl NotFoundError
      else if map_of (swports s) (sw, p) \<noteq> None then Inl DuplicateError
      else Inr (s\<lparr>swports := swports s @ [((sw, p), None)]\<rparr>))"

text \<open>
  Modelled from the spec: section 4.1, Port: delete(switch, port-label); section 3:
  deleting a port with a bound Nic is rejected.
\<close>

definition port_delete :: "label \<Rightarrow> label \<Rightarrow> registry \<Rightarrow> error + registry" where
  "port_delete sw p s =
     (if map_of (switches s) sw = None then Inl NotFoundError
      else (case map_of (swports s) (sw, p) of
              None \<Rightarrow> Inl NotFoundError
            | Some (Some b) \<Rightarrow> Inl RejectedError
            | Some None \<Rightarrow> Inr (s\<lparr>swports := AList.delete (sw, p) (swports s)\<rparr>)))"

text \<open>
  Modelled from the spec: section 4.1, connect_nic: NotFoundError if switch, port, node
  or Nic is absent; DuplicateError if the port already has a bound Nic or the Nic is
  already bound to a port.
\<close>

definition port_connect_nic ::
  "label \<Rightarrow> label \<Rightarrow> label \<Rightarrow> label \<Rightarrow> registry \<Rightarrow> error + registry" where
  "port_connect_nic sw p n nic s =
     (if map_of (switches s) sw = None then Inl NotFoundError
      else (case map_of (swports s) (sw, p) of
              None \<Rightarrow> Inl NotFoundError
            | Some b \<Rightarrow>
                if map_of (nodes s) n = None then Inl NotFoundError
                else (case map_of (nics s) (n, nic) of
                        None \<Rightarrow> Inl NotFoundError
                      | Some r \<Rightarrow>
                          if b \<noteq> None \<or> nic_port r \<noteq> None then Inl DuplicateError
                          else Inr (s\<lparr>swports := AList.update (sw, p) (Some (n, nic)) (swports s),
                                     nics := AList.update (n, nic)
                                               (r\<lparr>nic_port := Some (sw, p)\<rparr>) (nics s)\<rparr>))))"

text \<open>
  Modelled from the spec: section 4.1, detach_nic: NotFoundError if switch or port is
  absent or the port has no bound Nic.
\<close>

definition port_detach_nic :: "label \<Rightarrow> label \<Rightarrow> registry \<Rightarrow> error + registry" where
  "port_detach_nic sw p s =
     (if map_of (switches s) sw = None then Inl NotFoundError
      else (case map_of (swports s) (sw, p) of
              None \<Rightarrow> Inl NotFoundError
            | Some None \<Rightarrow> Inl NotFoundError
            | Some (Some k) \<Rightarrow>
                Inr (s\<lparr>swports := AList.update (sw, p) None (swports s),
                       nics := map (\<lambda>(k', r). (k', if k' = k then r\<lparr>nic_port := None\<rparr> else r))
                                 (nics s)\<rparr>)))"

subsection \<open>Queries\<close>

text \<open>
  Modelled from the spec: sections 4.1 and 6, list_free_nodes: the labels of the nodes
  with no owning project, as a sorted sequence.
\<close>

definition list_free_nodes :: "registry \<Rightarrow> label list" where
  "list_free_nodes s = sort (map fst (filter (\<lambda>(n, q). q = None) (nodes s)))"

subsection \<open>Calls and their outcome\<close>

text \<open>
  Modelled from the spec: the public operations of section 4.1, one constructor each.
\<close>

datatype call =
    GroupCreate label | GroupDelete label
  | UserCreate label string | UserDelete label
  | GroupAddUser label label | GroupRemoveUser label label
  | ProjectCreate label label | ProjectDelete label
  | ProjectConnectNode label label | ProjectDetachNode label label
  | NodeRegister label | NodeDelete label
  | NodeRegisterNic label label string | NodeDeleteNic label label
  | NetworkCreate label label "string option" | NetworkDelete label
  | NodeConnectNetwork label label label | NodeDetachNetwork label label
  | HeadnodeCreate label label | HeadnodeDelete label
  | HeadnodeCreateHnic label label string | HeadnodeDeleteHnic label label
  | HeadnodeConnectNetwork label label label | HeadnodeDetachNetwork label label
  | SwitchRegister label string | SwitchDelete label
  | PortRegister label label | PortDelete label label
  | PortConnectNic label label label label | PortDetachNic label label

text \<open>
  Modelled from the spec: the dispatch of a call to its operation.
\<close>

fun exec :: "call \<Rightarrow> registry \<Rightarrow> error + registry" where
  "exec (GroupCreate g) = group_create g"
| "exec (GroupDelete g) = group_delete g"
| "exec (UserCreate u secret) = user_create u secret"
| "exec (UserDelete u) = user_delete u"
| "exec (GroupAddUser g u) = group_add_user g u"
| "exec (GroupRemoveUser g u) = group_remove_user g u"
| "exec (ProjectCreate p g) = project_create p g"
| "exec (ProjectDelete p) = project_delete p"
| "exec (ProjectConnectNode p n) = project_connect_node p n"
| "exec (ProjectDetachNode p n) = project_detach_node p n"
| "exec (NodeRegister n) = node_register n"
| "exec (NodeDelete n) = node_delete n"
| "exec (NodeRegisterNic n nic mac) = node_register_nic n nic mac"
| "exec (NodeDeleteNic n nic) = node_delete_nic n nic"
| "exec (NetworkCreate net p allocated) = network_create net p allocated"
| "exec (NetworkDelete net) = network_delete net"
| "exec (NodeConnectNetwork n nic net) = node_connect_network n nic net"
| "exec (NodeDetachNetwork n nic) = node_detach_network n nic"
| "exec (HeadnodeCreate h p) = headnode_create h p"
| "exec (HeadnodeDelete h) = headnode_delete h"
| "exec (HeadnodeCreateHnic h hnic mac) = headnode_create_hnic h hnic mac"
| "exec (HeadnodeDeleteHnic h hnic) = headnode_delete_hnic h hnic"
| "exec (HeadnodeConnectNetwork h hnic net) = headnode_connect_network h hnic net"
| "exec (HeadnodeDetachNetwork h hnic) = headnode_detach_network h hnic"
| "exec (SwitchRegister sw config) = switch_register sw config"
| "exec (SwitchDelete sw) = switch_delete sw"
| "exec (PortRegister sw p) = port_register sw p"
| "exec (PortDelete sw p) = port_delete sw p"
| "exec (PortConnectNic sw p n nic) = port_connect_nic sw p n nic"
| "exec (PortDetachNic sw p) = port_detach_nic sw p"

text \<open>
  Modelled from the spec: section 7, propagation policy: what a caller observes is the
  error, if the call raised one, and the graph after the call; a call that raises
  commits nothing.
\<close>

definition outcome :: "call \<Rightarrow> registry \<Rightarrow> error option \<times> registry" where
  "outcome c s = (case exec c s of Inl e \<Rightarrow> (Some e, s) | Inr s' \<Rightarrow> (None, s'))"

text \<open>
  Modelled from the spec: the graph after a sequence of calls, each in the graph the one
  before left.
\<close>

fun after :: "call list \<Rightarrow> registry \<Rightarrow> registry" where
  "after [] s = s"
| "after (c # cs) s = after cs (snd (outcome c s))"

text \<open>
  Modelled from the spec: section 8, the quiescent points: the graphs some sequence of
  calls leads to.
\<close>

inductive reachable :: "registry \<Rightarrow> bool" where
  start: "reachable empty_registry"
| step: "reachable s \<Longrightarrow> reachable (snd (outcome c s))"

section \<open>Vocabulary of the statements\<close>

text \<open>The request that asks the switch for the switchport state of an interface.\<close>

definition show_request :: "switch \<Rightarrow> string \<Rightarrow> request" where
  "show_request self i =
     \<lparr>req_method = ''POST'',
      req_url = hostname self @ ''/api/running/dell/_operations/cli'',
      req_data = Some (''<input><show-command>interfaces switchport '' @ interface_type self
                       @ '' '' @ i @ ''</show-command></input>''),
      req_auth = (username self, password self)\<rparr>"

text \<open>The URL of the interface resource, for an interface type already translated.\<close>

definition interface_url :: "switch \<Rightarrow> string \<Rightarrow> string \<Rightarrow> string" where
  "interface_url self t port =
     hostname self @ ''/api/running/dell/interfaces/interface/''
     @ (if re_match port_re port
        then t @ map (\<lambda>c. if c = CHR ''/'' then CHR ''-'' else c) port
        else ''vlan-'' @ port)"

text \<open>
  The administrative state an interface resource body asks for, and whether the last
  request of a world asked for the port to be shut down.
\<close>

definition asks_shutdown :: "string \<Rightarrow> bool" where
  "asks_shutdown body = (0 \<le> py_find body ''<shutdown>true</shutdown>'' 0)"

definition left_disabled :: "world \<Rightarrow> bool" where
  "left_disabled w =
     (case rev (sent w) of
        [] \<Rightarrow> False
      | rq # _ \<Rightarrow> (case req_data rq of None \<Rightarrow> False | Some body \<Rightarrow> asks_shutdown body))"

text \<open>
  The port-name grammar as the specification words it: two or three runs of digits
  separated by single slashes, and nothing else.
\<close>

definition digits :: "string \<Rightarrow> bool" where
  "digits s = (s \<noteq> [] \<and> list_all is_digit s)"

definition port_name_grammar :: "string \<Rightarrow> bool" where
  "port_name_grammar s =
     (case py_split (CHR ''/'') s of
        [a, b] \<Rightarrow> digits a \<and> digits b
      | [a, b, c] \<Rightarrow> digits a \<and> digits b \<and> digits c
      | _ \<Rightarrow> False)"

subsection \<open>Concrete inputs\<close>

definition example_switch :: switch where
  "example_switch =
     \<lparr>hostname = ''http://sw'', username = ''admin'', password = ''pw'',
      interface_type = ''GigabitEthernet'', ports = [\<lparr>label = ''1/2''\<rparr>]\<rparr>"

definition fresh_world :: world where
  "fresh_world = \<lparr>sent = [], printed = [], logged = []\<rparr>"

text \<open>A switch that answers every request with status \<open>status\<close> and the text \<open>t\<close>.\<close>

definition answering :: "int \<Rightarrow> string \<Rightarrow> device" where
  "answering status t sofar rq = \<lparr>status_code = status, resp_text = t\<rparr>"

text \<open>The switchport report of a port that has no native VLAN.\<close>

definition report_without_native :: string where
  "report_without_native =
     ''Name: GigabitEthernet 1/2'' @ [CR, LF]
     @ ''Vlan membership:'' @ [CR, LF]
     @ ''Q       Vlans'' @ [CR, LF]
     @ ''U       1'' @ [CR, LF]
     @ ''T       52'' @ [CR, LF]"

subsection \<open>Vocabulary of the registry\<close>

definition nic_pointer :: "registry \<Rightarrow> label \<times> label \<Rightarrow> label option" where
  "nic_pointer s k = (case map_of (nics s) k of None \<Rightarrow> None | Some r \<Rightarrow> nic_network r)"

definition attached_nics :: "registry \<Rightarrow> label \<Rightarrow> (label \<times> label) set" where
  "attached_nics s net = (case map_of (networks s) net of None \<Rightarrow> {} | Some N \<Rightarrow> net_nics N)"

definition nic_network_symmetric :: "registry \<Rightarrow> bool" where
  "nic_network_symmetric s =
     (\<forall>k net. (nic_pointer s k = Some net) = (k \<in> attached_nics s net))"

fun rewires_nics :: "call \<Rightarrow> bool" where
  "rewires_nics (NodeConnectNetwork n nic net) = True"
| "rewires_nics (NodeDetachNetwork n nic) = True"
| "rewires_nics (NodeDelete n) = True"
| "rewires_nics c = False"

text \<open>The errors a sequence of calls raises, call by call, from a given graph.\<close>

fun errors_of :: "call list \<Rightarrow> registry \<Rightarrow> error option list" where
  "errors_of [] s = []"
| "errors_of (c # cs) s = fst (outcome c s) # errors_of cs (snd (outcome c s))"

definition connect_scenario :: "call list" where
  "connect_scenario =
     [NodeRegister ''node-99'',
      NodeRegisterNic ''node-99'' ''99-eth0'' ''DE:AD:BE:EF:20:14'',
      GroupCreate ''acme-code'',
      ProjectCreate ''anvil-nextgen'' ''acme-code'',
      ProjectConnectNode ''anvil-nextgen'' ''node-99'',
      NetworkCreate ''hammernet'' ''anvil-nextgen'' (Some ''101''),
      NodeConnectNetwork ''node-99'' ''99-eth0'' ''hammernet'']"

definition node_labels_distinct :: "registry \<Rightarrow> bool" where
  "node_labels_distinct s = distinct (map fst (nodes s))"

definition free_nodes_scenario :: "call list" where
  "free_nodes_scenario =
     [NodeRegister ''master-control-program'', NodeRegister ''robocop'', NodeRegister ''data'']"


definition port_scenario :: "call list" where
  "port_scenario =
     [SwitchRegister ''bait-and'' ''big-iron'', PortRegister ''bait-and'' ''3'',
      NodeRegister ''compute-01'', NodeRegister ''compute-02'',
      NodeRegisterNic ''compute-01'' ''eth0'' ''DE:AD:BE:EF:20:14'',
      NodeRegisterNic ''compute-02'' ''eth1'' ''DE:AD:BE:EF:20:15'',
      PortConnectNic ''bait-and'' ''3'' ''compute-01'' ''eth0'']"

section \<open>Properties of the driver\<close>

subsection \<open>Helper facts\<close>

lemma construct_url_cli:
  "construct_url self None suffix = Inr (hostname self @ ''/api/running/dell/_operations/cli'')"
  by (simp add: construct_url_def)

lemma make_request_sent:
  "sent (snd (make_request dev self method url data acc w)) =
     sent w @ [\<lparr>req_method = method, req_url = url, req_data = data,
                 req_auth = (username self, password self)\<rparr>]"
  by (simp add: make_request_def Let_def auth_def)

lemma make_request_fst:
  "fst (make_request dev self method url data acc w) =
     dev (sent w) \<lparr>req_method = method, req_url = url, req_data = data,
                   req_auth = (username self, password self)\<rparr>"
  by (simp add: make_request_def Let_def auth_def)

lemma py_replace_map:
  "py_replace old [new] s = map (\<lambda>c. if c = old then new else c) s"
  by (induction s) (simp_all add: py_replace_def)

lemma resolved_port_label:
  assumes "filter (\<lambda>p. label p = port) (ports self) = [p]"
  shows "label p = port"
proof -
  have "p \<in> set (filter (\<lambda>p. label p = port) (ports self))"
    using assms by simp
  then show ?thesis by simp
qed

lemma digits1_all_digits:
  "ds \<noteq> [] \<Longrightarrow> list_all is_digit ds \<Longrightarrow> \<exists>rs. digits1 ds = [] # rs"
proof (induction ds)
  case Nil
  then show ?case by simp
next
  case (Cons c ds)
  show ?case
  proof (cases ds)
    case Nil
    with Cons.prems show ?thesis by simp
  next
    case (Cons d ds')
    with Cons.IH Cons.prems obtain rs where "digits1 ds = [] # rs" by auto
    with Cons.prems show ?thesis by simp
  qed
qed

lemma vlan_re_group_digits:
  "ds \<noteq> [] \<Longrightarrow> list_all is_digit ds \<Longrightarrow> vlan_re_group (''vlan/'' @ ds) = Some ds"
  using digits1_all_digits [of ds] by (auto simp add: vlan_re_group_def lit_def)

lemma digits_not_native:
  "list_all is_digit ds \<Longrightarrow> ''vlan/'' @ ds \<noteq> ''vlan/native''"
  by (auto simp add: is_digit_def)

lemma add_vlan_to_trunk_fst: "fst (add_vlan_to_trunk dev self i v w) = Inr ()"
  by (simp add: add_vlan_to_trunk_def construct_url_cli)

lemma add_vlan_to_trunk_sent:
  "sent (snd (add_vlan_to_trunk dev self i v w)) =
     sent w @ [\<lparr>req_method = ''POST'',
                 req_url = hostname self @ ''/api/running/dell/_operations/cli'',
                 req_data = Some (''<input><config-commands>interface vlan '' @ v @ [CR, LF]
                    @ '' tagged '' @ interface_type self @ '' '' @ i
                    @ ''</config-commands></input>''),
                 req_auth = (username self, password self)\<rparr>]"
  by (simp add: add_vlan_to_trunk_def construct_url_cli make_request_sent make_payload_def
      CONFIG_def)



lemma get_native_vlan_eq:
  "get_native_vlan dev self i w =
     (Inr (Some (''vlan/native'',
                 native_vlan_of_text (resp_text (dev (sent w) (show_request self i))))),
      snd (make_request dev self ''POST'' (hostname self @ ''/api/running/dell/_operations/cli'')
             (Some (''<input><show-command>interfaces switchport '' @ interface_type self
                       @ '' '' @ i @ ''</show-command></input>'')) [] w))"
  by (simp add: get_native_vlan_def construct_url_cli make_payload_def SHOW_def
      split_def Let_def make_request_fst show_request_def)



lemma construct_url_interface:
  "convert_interface (interface_type self) = Inr t \<Longrightarrow>
   construct_url self (Some port) [] = Inr (interface_url self t port)"
  by (simp add: construct_url_def interface_url_def py_replace_map)

lemma get_port_networks_loop_native:
  "get_port_networks_loop dev self ps response w = (Inr m, w') \<Longrightarrow>
   (\<forall>p. (p \<in> set ps \<longrightarrow> (\<exists>s rest. m p = Some ((''vlan/native'', s) # rest)))
      \<and> (p \<notin> set ps \<longrightarrow> m p = response p))"
proof (induction ps arbitrary: response w)
  case Nil
  then show ?case by simp
next
  case (Cons q ps)
  obtain s w1 where
    n: "get_native_vlan dev self (label q) w = (Inr (Some (''vlan/native'', s)), w1)"
    by (simp add: get_native_vlan_eq)
  from Cons.prems n obtain vlans w2 where
    v: "get_vlans dev self (label q) w1 = (Inr vlans, w2)"
    and l: "get_port_networks_loop dev self ps
              (response(q \<mapsto> (''vlan/native'', s) # vlans)) w2 = (Inr m, w')"
    by (auto simp add: truthy_def split: prod.splits sum.splits)
  from Cons.IH [OF l] have ih:
    "\<And>p. p \<in> set ps \<Longrightarrow> \<exists>s rest. m p = Some ((''vlan/native'', s) # rest)"
    "\<And>p. p \<notin> set ps \<Longrightarrow> m p = (response(q \<mapsto> (''vlan/native'', s) # vlans)) p"
    by blast+
  show ?case
  proof (intro allI conjI impI)
    fix p
    assume "p \<in> set (q # ps)"
    then show "\<exists>s rest. m p = Some ((''vlan/native'', s) # rest)"
      using ih by (cases "p \<in> set ps") auto
  next
    fix p
    assume "p \<notin> set (q # ps)"
    then show "m p = response p"
      using ih(2) [of p] by simp
  qed
qed

subsection \<open>Tagged channels\<close>

text \<open>
  C1. On a port the switch lists exactly once, with a channel \<open>vlan/<id>\<close> (\<open><id>\<close> a
  non-empty run of digits) and a network identifier \<open>n\<close>, \<open>modify_port\<close> returns
  normally exactly when \<open>n\<close> is \<open><id>\<close>. It then has sent one request, the command
  that adds VLAN \<open><id>\<close> as tagged on the port. Otherwise the assertion fails and
  nothing was sent.
\<close>

theorem modify_port_tagged:
  assumes "filter (\<lambda>p. label p = port) (ports self) = [p]"
    and "ds \<noteq> []" and "list_all is_digit ds"
  shows "(fst (modify_port dev self port (''vlan/'' @ ds) (Some n) w) = Inr ()) = (n = ds)
     \<and> (if n = ds
         then sent (snd (modify_port dev self port (''vlan/'' @ ds) (Some n) w)) =
                 sent w @ [\<lparr>req_method = ''POST'',
                   req_url = hostname self @ ''/api/running/dell/_operations/cli'',
                   req_data = Some (''<input><config-commands>interface vlan '' @ ds @ [CR, LF]
                      @ '' tagged '' @ interface_type self @ '' '' @ port
                      @ ''</config-commands></input>''),
                   req_auth = (username self, password self)\<rparr>]
         else modify_port dev self port (''vlan/'' @ ds) (Some n) w = (Inl AssertionError, w))"
  using assms(1) resolved_port_label [OF assms(1)] digits_not_native [OF assms(3)]
  by (simp add: modify_port_def vlan_re_group_digits [OF assms(2,3)]
      add_vlan_to_trunk_fst add_vlan_to_trunk_sent del: append.simps)

theorem modify_port_tagged_witness:
  "fst (modify_port (answering 200 []) example_switch ''1/2'' ''vlan/52'' (Some ''52'')
          fresh_world) = Inr ()
   \<and> modify_port (answering 200 []) example_switch ''1/2'' ''vlan/52'' (Some ''7'') fresh_world
       = (Inl AssertionError, fresh_world)"
  using modify_port_tagged [where port = "''1/2''" and self = example_switch
      and p = "\<lparr>label = ''1/2''\<rparr>" and ds = "''52''" and n = "''52''"
      and dev = "answering 200 []" and w = fresh_world]
    modify_port_tagged [where port = "''1/2''" and self = example_switch
      and p = "\<lparr>label = ''1/2''\<rparr>" and ds = "''52''" and n = "''7''"
      and dev = "answering 200 []" and w = fresh_world]
  by (simp add: example_switch_def is_digit_def)

subsection \<open>The native channel\<close>



subsection \<open>Reverting a port\<close>

text \<open>
  C3, as the code has it. When the switch's interface type is in the translation
  table, \<open>revert_port\<close> returns normally after exactly two requests: a PUT of the
  interface resource with hybrid port mode off and \<open>shutdown\<close> true, then a PUT of the
  same resource with hybrid port mode on, switchport enabled and \<open>shutdown\<close> false. It
  sends no VLAN command, and the last state it asks for is an enabled port.
\<close>

theorem revert_port_toggles:
  assumes "convert_interface (interface_type self) = Inr t"
  shows "fst (revert_port dev self port w) = Inr ()
     \<and> sent (snd (revert_port dev self port w)) =
         sent w @
         [\<lparr>req_method = ''PUT'', req_url = interface_url self t port,
           req_data = Some (''<interface><name>'' @ t
              @ map (\<lambda>c. if c = CHR ''/'' then CHR ''-'' else c) port
              @ ''</name><portmode><hybrid>false</hybrid></portmode><shutdown>true</shutdown></interface>''),
           req_auth = (username self, password self)\<rparr>,
          \<lparr>req_method = ''PUT'', req_url = interface_url self t port,
           req_data = Some (''<interface><name>'' @ t
              @ map (\<lambda>c. if c = CHR ''/'' then CHR ''-'' else c) port
              @ ''</name><portmode><hybrid>true</hybrid></portmode><switchport></switchport><shutdown>false</shutdown></interface>''),
           req_auth = (username self, password self)\<rparr>]"
  using assms
  by (simp add: revert_port_def port_shutdown_def port_on_def construct_url_interface
      make_request_sent py_replace_map split_def del: append.simps)

theorem revert_port_toggles_witness:
  "sent (snd (revert_port (answering 200 []) example_switch ''1/2'' fresh_world)) =
     [\<lparr>req_method = ''PUT'',
       req_url = ''http://sw/api/running/dell/interfaces/interface/gige-1-2'',
       req_data = Some ''<interface><name>gige-1-2</name><portmode><hybrid>false</hybrid></portmode><shutdown>true</shutdown></interface>'',
       req_auth = (''admin'', ''pw'')\<rparr>,
      \<lparr>req_method = ''PUT'',
       req_url = ''http://sw/api/running/dell/interfaces/interface/gige-1-2'',
       req_data = Some ''<interface><name>gige-1-2</name><portmode><hybrid>true</hybrid></portmode><switchport></switchport><shutdown>false</shutdown></interface>'',
       req_auth = (''admin'', ''pw'')\<rparr>]"
proof -
  have m: "re_match port_re ''1/2''" by code_simp
  have c: "convert_interface (interface_type example_switch) = Inr ''gige-''" by code_simp
  show ?thesis
    using revert_port_toggles [OF c, where dev = "answering 200 []" and port = "''1/2''"
        and w = fresh_world] m
    by (simp add: example_switch_def fresh_world_def interface_url_def)
qed

text \<open>
  The last request of \<open>revert_port\<close> on port \<open>1/2\<close> does not ask for a shut-down port:
  the port is left enabled.
\<close>

theorem revert_port_leaves_enabled:
  "\<not> left_disabled (snd (revert_port (answering 200 []) example_switch ''1/2'' fresh_world))"
  by (simp add: revert_port_def port_shutdown_def port_on_def construct_url_def
      convert_interface_def iftypes_def example_switch_def fresh_world_def make_request_def
      answering_def left_disabled_def asks_shutdown_def py_find_def py_replace_def auth_def
      re_match_def port_re_def seq_def bol_def lit_def opt_def eol_def is_digit_def LF_def
      Let_def)

subsection \<open>Port names\<close>

text \<open>
  What each matcher leaves to read, and with it the names the port-name pattern
  accepts: the names of the grammar, and those names followed by one newline.
\<close>

lemma in_lit: "r \<in> set (lit p s) \<longleftrightarrow> s = p @ r"
  by (auto simp add: lit_def) (metis append_take_drop_id)

lemma in_seq: "r \<in> set (seq m1 m2 s) \<longleftrightarrow> (\<exists>t \<in> set (m1 s). r \<in> set (m2 t))"
  by (auto simp add: seq_def)

lemma in_opt: "r \<in> set (opt m s) \<longleftrightarrow> r \<in> set (m s) \<or> r = s"
  by (auto simp add: opt_def)

lemma in_eol: "r \<in> set (eol s) \<longleftrightarrow> r = s \<and> (s = [] \<or> s = [LF])"
  by (auto simp add: eol_def)

lemma in_bol: "r \<in> set (bol s) \<longleftrightarrow> r = s"
  by (auto simp add: bol_def)

lemma in_digits1: "r \<in> set (digits1 s) \<longleftrightarrow> (\<exists>a. digits a \<and> s = a @ r)"
proof (induction s)
  case Nil
  show ?case by (simp add: digits_def)
next
  case (Cons c s)
  show ?case
  proof (cases "is_digit c")
    case False
    then show ?thesis
      by (auto simp add: digits_def Cons_eq_append_conv)
  next
    case True
    show ?thesis
    proof
      assume "r \<in> set (digits1 (c # s))"
      with True have "r \<in> set (digits1 s) \<or> r = s" by auto
      then show "\<exists>a. digits a \<and> c # s = a @ r"
      proof
        assume "r \<in> set (digits1 s)"
        with Cons.IH obtain a where "digits a" "s = a @ r" by blast
        with True have "digits (c # a) \<and> c # s = (c # a) @ r"
          by (simp add: digits_def)
        then show ?thesis by blast
      next
        assume "r = s"
        with True have "digits [c] \<and> c # s = [c] @ r" by (simp add: digits_def)
        then show ?thesis by blast
      qed
    next
      assume "\<exists>a. digits a \<and> c # s = a @ r"
      then obtain a where a: "digits a" "c # s = a @ r" by blast
      then obtain a' where a': "a = c # a'" "s = a' @ r"
        by (cases a) (auto simp add: digits_def)
      show "r \<in> set (digits1 (c # s))"
      proof (cases "a' = []")
        case True
        with a' \<open>is_digit c\<close> show ?thesis by simp
      next
        case False
        with a a' have "digits a'" by (simp add: digits_def)
        with a' Cons.IH have "r \<in> set (digits1 s)" by blast
        with \<open>is_digit c\<close> show ?thesis by simp
      qed
    qed
  qed
qed

lemma re_match_iff: "re_match m s \<longleftrightarrow> (\<exists>r. r \<in> set (m s))"
  by (cases "m s") (auto simp add: re_match_def)

lemma port_re_accepts:
  "re_match port_re s \<longleftrightarrow>
     (\<exists>a b e. digits a \<and> digits b \<and> (e = [] \<or> e = [LF])
        \<and> (s = a @ ''/'' @ b @ e \<or> (\<exists>c. digits c \<and> s = a @ ''/'' @ b @ ''/'' @ c @ e)))"
  unfolding re_match_iff port_re_def
  by (simp add: in_seq in_bol in_digits1 in_lit in_opt in_eol Bex_def) blast


lemma digits_no_slash: "digits a \<Longrightarrow> CHR ''/'' \<notin> set a"
  by (auto simp add: digits_def list_all_iff is_digit_def)

lemma py_split_nonempty: "py_split sep s \<noteq> []"
  by (induction s) (auto split: list.splits)

lemma py_split_no_sep: "sep \<notin> set a \<Longrightarrow> py_split sep a = [a]"
  by (induction a) auto

lemma py_split_append:
  "sep \<notin> set a \<Longrightarrow> py_split sep (a @ sep # r) = a # py_split sep r"
  by (induction a) auto

lemma py_split_head:
  "py_split sep s = x # xs \<Longrightarrow>
   (case xs of [] \<Rightarrow> s = x | _ # _ \<Rightarrow> (\<exists>rest. s = x @ sep # rest \<and> py_split sep rest = xs))"
proof (induction s arbitrary: x xs)
  case Nil
  then show ?case by simp
next
  case (Cons c s)
  show ?case
  proof (cases "c = sep")
    case True
    with Cons.prems have "x = []" "xs = py_split sep s" by simp_all
    with True py_split_nonempty [of sep s] show ?thesis
      by (cases "py_split sep s") auto
  next
    case False
    obtain y ys where y: "py_split sep s = y # ys"
      using py_split_nonempty [of sep s] by (cases "py_split sep s") auto
    with False Cons.prems have x: "x = c # y" "xs = ys" by simp_all
    from Cons.IH [OF y] x show ?thesis
      by (cases ys) auto
  qed
qed

lemma grammar_iff:
  "port_name_grammar s \<longleftrightarrow>
     (\<exists>a b. digits a \<and> digits b \<and> s = a @ ''/'' @ b)
     \<or> (\<exists>a b c. digits a \<and> digits b \<and> digits c \<and> s = a @ ''/'' @ b @ ''/'' @ c)"
proof
  assume g: "port_name_grammar s"
  then consider a b where "py_split (CHR ''/'') s = [a, b]" "digits a" "digits b"
    | a b c where "py_split (CHR ''/'') s = [a, b, c]" "digits a" "digits b" "digits c"
    by (auto simp add: port_name_grammar_def split: list.splits)
  then show "(\<exists>a b. digits a \<and> digits b \<and> s = a @ ''/'' @ b)
     \<or> (\<exists>a b c. digits a \<and> digits b \<and> digits c \<and> s = a @ ''/'' @ b @ ''/'' @ c)"
  proof cases
    case 1
    from py_split_head [OF 1(1)] obtain rest where
      r: "s = a @ CHR ''/'' # rest" "py_split (CHR ''/'') rest = [b]" by auto
    from py_split_head [OF r(2)] have "rest = b" by simp
    with r 1 show ?thesis by auto
  next
    case 2
    from py_split_head [OF 2(1)] obtain rest where
      r: "s = a @ CHR ''/'' # rest" "py_split (CHR ''/'') rest = [b, c]" by auto
    from py_split_head [OF r(2)] obtain rest' where
      r': "rest = b @ CHR ''/'' # rest'" "py_split (CHR ''/'') rest' = [c]" by auto
    from py_split_head [OF r'(2)] have "rest' = c" by simp
    with r r' have "s = a @ ''/'' @ b @ ''/'' @ c" by simp
    with 2(2-4) have "\<exists>a b c. digits a \<and> digits b \<and> digits c \<and> s = a @ ''/'' @ b @ ''/'' @ c"
      by (intro exI conjI)
    then show ?thesis by (rule disjI2)
  qed
next
  assume "(\<exists>a b. digits a \<and> digits b \<and> s = a @ ''/'' @ b)
     \<or> (\<exists>a b c. digits a \<and> digits b \<and> digits c \<and> s = a @ ''/'' @ b @ ''/'' @ c)"
  then show "port_name_grammar s"
  proof (elim disjE exE conjE)
    fix a b
    assume "digits a" "digits b" "s = a @ ''/'' @ b"
    then show ?thesis
      by (simp add: port_name_grammar_def py_split_append py_split_no_sep digits_no_slash)
  next
    fix a b c
    assume "digits a" "digits b" "digits c" "s = a @ ''/'' @ b @ ''/'' @ c"
    then show ?thesis
      by (simp add: port_name_grammar_def py_split_append py_split_no_sep digits_no_slash)
  qed
qed

lemma port_re_accepts_grammar:
  "re_match port_re s \<longleftrightarrow>
     port_name_grammar s \<or> (\<exists>g. s = g @ [LF] \<and> port_name_grammar g)"
proof
  assume "re_match port_re s"
  then obtain a b e where ab: "digits a" "digits b" and e: "e = [] \<or> e = [LF]"
    and s: "s = a @ ''/'' @ b @ e \<or> (\<exists>c. digits c \<and> s = a @ ''/'' @ b @ ''/'' @ c @ e)"
    unfolding port_re_accepts by blast
  from s obtain g where g: "port_name_grammar g" "s = g @ e"
  proof
    assume "s = a @ ''/'' @ b @ e"
    then have "s = (a @ ''/'' @ b) @ e" by simp
    moreover have "port_name_grammar (a @ ''/'' @ b)"
      unfolding grammar_iff using ab by blast
    ultimately show ?thesis using that by blast
  next
    assume "\<exists>c. digits c \<and> s = a @ ''/'' @ b @ ''/'' @ c @ e"
    then obtain c where c: "digits c" "s = a @ ''/'' @ b @ ''/'' @ c @ e" by blast
    then have "s = (a @ ''/'' @ b @ ''/'' @ c) @ e" by simp
    moreover have "port_name_grammar (a @ ''/'' @ b @ ''/'' @ c)"
      unfolding grammar_iff using ab c(1) by blast
    ultimately show ?thesis using that by blast
  qed
  from e show "port_name_grammar s \<or> (\<exists>g. s = g @ [LF] \<and> port_name_grammar g)"
  proof
    assume "e = []"
    with g show ?thesis by simp
  next
    assume "e = [LF]"
    with g show ?thesis by blast
  qed
next
  assume "port_name_grammar s \<or> (\<exists>g. s = g @ [LF] \<and> port_name_grammar g)"
  then obtain g e where g: "port_name_grammar g" and e: "e = [] \<or> e = [LF]"
    and s: "s = g @ e"
    by (metis append_Nil2)
  from g consider a b where "digits a" "digits b" "g = a @ ''/'' @ b"
    | a b c where "digits a" "digits b" "digits c" "g = a @ ''/'' @ b @ ''/'' @ c"
    unfolding grammar_iff by blast
  then show "re_match port_re s"
  proof cases
    case 1
    with s have "s = a @ ''/'' @ b @ e" by simp
    with 1 e show ?thesis unfolding port_re_accepts by blast
  next
    case 2
    with s have "s = a @ ''/'' @ b @ ''/'' @ c @ e" by simp
    with 2 e show ?thesis unfolding port_re_accepts by blast
  qed
qed

lemma validate_port_name_accepts:
  "validate_port_name s = Inr () \<longleftrightarrow>
     port_name_grammar s \<or> (\<exists>g. s = g @ [LF] \<and> port_name_grammar g)"
  using port_re_accepts_grammar [of s] by (simp add: validate_port_name_def)

text \<open>
  C4 at the input where the code leaves the grammar: \<open>validate_port_name\<close> accepts
  \<open>1/2\<close> followed by a newline, which is no port name of the grammar. It accepts
  \<open>1/0/1\<close> and \<open>1/2\<close> and rejects \<open>a/b\<close>, as the grammar does.
\<close>

theorem validate_port_name_trailing_newline:
  "validate_port_name (''1/2'' @ [LF]) = Inr ()
   \<and> \<not> port_name_grammar (''1/2'' @ [LF])
   \<and> validate_port_name ''1/0/1'' = Inr () \<and> port_name_grammar ''1/0/1''
   \<and> validate_port_name ''1/2'' = Inr () \<and> port_name_grammar ''1/2''
   \<and> validate_port_name ''a/b'' = Inl BadArgumentError \<and> \<not> port_name_grammar ''a/b''"
  by code_simp

subsection \<open>Requests and their failures\<close>


subsection \<open>Interface names and URLs\<close>

text \<open>
  C9. \<open>convert_interface\<close> maps the seven interface types of the table to their URL
  prefixes and raises KeyError on every other string. For a name the port-name
  pattern accepts and an interface type of the table, \<open>construct_url\<close> builds the
  interface URL with every slash of the name replaced by a dash.
\<close>

theorem convert_interface_fixed_map:
  "convert_interface ''GigabitEthernet'' = Inr ''gige-''
   \<and> convert_interface ''TenGigabitEthernet'' = Inr ''tengig-''
   \<and> convert_interface ''TwentyfiveGigabitEthernet'' = Inr ''twentyfivegig-''
   \<and> convert_interface ''fortyGigE'' = Inr ''fortygig-''
   \<and> convert_interface ''peGigabitEthernet'' = Inr ''pegig-''
   \<and> convert_interface ''FiftyGigabitEthernet'' = Inr ''fiftygig-''
   \<and> convert_interface ''HundredGigabitEthernet'' = Inr ''hundredgig-''
   \<and> (t \<notin> {''GigabitEthernet'', ''TenGigabitEthernet'', ''TwentyfiveGigabitEthernet'',
            ''fortyGigE'', ''peGigabitEthernet'', ''FiftyGigabitEthernet'',
            ''HundredGigabitEthernet''} \<longrightarrow> convert_interface t = Inl KeyError)
   \<and> (re_match port_re name \<and> convert_interface (interface_type self) = Inr p \<longrightarrow>
        construct_url self (Some name) suffix =
          Inr (hostname self @ ''/api/running/dell/interfaces/interface/'' @ p
               @ map (\<lambda>c. if c = CHR ''/'' then CHR ''-'' else c) name
               @ (if suffix = [] then [] else ''/'' @ suffix))
        \<and> CHR ''/'' \<notin> set (map (\<lambda>c. if c = CHR ''/'' then CHR ''-'' else c) name))"
proof -
  have tab: "convert_interface ''GigabitEthernet'' = Inr ''gige-''"
    "convert_interface ''TenGigabitEthernet'' = Inr ''tengig-''"
    "convert_interface ''TwentyfiveGigabitEthernet'' = Inr ''twentyfivegig-''"
    "convert_interface ''fortyGigE'' = Inr ''fortygig-''"
    "convert_interface ''peGigabitEthernet'' = Inr ''pegig-''"
    "convert_interface ''FiftyGigabitEthernet'' = Inr ''fiftygig-''"
    "convert_interface ''HundredGigabitEthernet'' = Inr ''hundredgig-''"
    by (simp_all add: convert_interface_def iftypes_def)
  have out: "t \<notin> {''GigabitEthernet'', ''TenGigabitEthernet'', ''TwentyfiveGigabitEthernet'',
            ''fortyGigE'', ''peGigabitEthernet'', ''FiftyGigabitEthernet'',
            ''HundredGigabitEthernet''} \<longrightarrow> convert_interface t = Inl KeyError"
    by (simp add: convert_interface_def iftypes_def)
  have url: "re_match port_re name \<and> convert_interface (interface_type self) = Inr p \<longrightarrow>
        construct_url self (Some name) suffix =
          Inr (hostname self @ ''/api/running/dell/interfaces/interface/'' @ p
               @ map (\<lambda>c. if c = CHR ''/'' then CHR ''-'' else c) name
               @ (if suffix = [] then [] else ''/'' @ suffix))"
    by (simp add: construct_url_def py_replace_map)
  have noslash: "CHR ''/'' \<notin> set (map (\<lambda>c. if c = CHR ''/'' then CHR ''-'' else c) name)"
    by auto
  from tab out url noslash show ?thesis by blast
qed

theorem convert_interface_fixed_map_witness:
  "convert_interface ''Ethernet'' = Inl KeyError
   \<and> construct_url example_switch (Some ''1/0/1'') [] =
       Inr ''http://sw/api/running/dell/interfaces/interface/gige-1-0-1''"
proof -
  have m: "re_match port_re ''1/0/1''" by code_simp
  have c: "convert_interface (interface_type example_switch) = Inr ''gige-''" by code_simp
  show ?thesis
    using convert_interface_fixed_map [where t = "''Ethernet''" and name = "''1/0/1''"
        and self = example_switch and p = "''gige-''" and suffix = "[]"] m c
    by (simp add: example_switch_def)
qed

subsection \<open>Querying the native VLAN\<close>

text \<open>
  C10. Whatever the switch answers, \<open>get_native_vlan\<close> returns a pair whose first
  component is \<open>vlan/native\<close>, never \<open>None\<close>; the filter of \<open>get_port_networks\<close>
  therefore keeps it, and every result of \<open>get_port_networks\<close> lists, for each port
  asked for, a \<open>vlan/native\<close> entry first.
\<close>

theorem native_vlan_never_filtered:
  "(\<exists>s. fst (get_native_vlan dev self i w) = Inr (Some (''vlan/native'', s)))
   \<and> (\<forall>v. fst (get_native_vlan dev self i w) = Inr v \<longrightarrow> filter truthy [v] = [v])
   \<and> (\<forall>m. fst (get_port_networks dev self ps w) = Inr m \<longrightarrow>
        (\<forall>p \<in> set ps. \<exists>s rest. m p = Some ((''vlan/native'', s) # rest)))"
proof (intro conjI allI impI)
  show "\<exists>s. fst (get_native_vlan dev self i w) = Inr (Some (''vlan/native'', s))"
    by (simp add: get_native_vlan_eq)
next
  fix v
  assume "fst (get_native_vlan dev self i w) = Inr v"
  then show "filter truthy [v] = [v]"
    by (auto simp add: get_native_vlan_eq truthy_def)
next
  fix m
  assume a: "fst (get_port_networks dev self ps w) = Inr m"
  then obtain w' where "get_port_networks_loop dev self ps Map.empty w = (Inr m, w')"
    by (cases "get_port_networks_loop dev self ps Map.empty w")
      (simp add: get_port_networks_def)
  from get_port_networks_loop_native [OF this]
  show "\<forall>p \<in> set ps. \<exists>s rest. m p = Some ((''vlan/native'', s) # rest)" by blast
qed

theorem native_vlan_never_filtered_witness:
  "\<exists>m s rest.
     fst (get_port_networks (answering 200 report_without_native) example_switch
            [\<lparr>label = ''1/2''\<rparr>] fresh_world) = Inr m
     \<and> m \<lparr>label = ''1/2''\<rparr> = Some ((''vlan/native'', s) # rest)"
proof -
  have "case fst (get_port_networks (answering 200 report_without_native) example_switch
                    [\<lparr>label = ''1/2''\<rparr>] fresh_world) of
          Inl e \<Rightarrow> False | Inr m \<Rightarrow> True"
    by code_simp
  then obtain m where
    m: "fst (get_port_networks (answering 200 report_without_native) example_switch
               [\<lparr>label = ''1/2''\<rparr>] fresh_world) = Inr m"
    by (auto split: sum.splits)
  with native_vlan_never_filtered
    [where dev = "answering 200 report_without_native" and self = example_switch
       and i = "''1/2''" and w = fresh_world and ps = "[\<lparr>label = ''1/2''\<rparr>]"]
  show ?thesis by auto
qed

section \<open>Properties of the registry\<close>

subsection \<open>Helper facts\<close>

lemma map_of_map_val:
  "map_of (map (\<lambda>(k, v). (k, f k v)) al) k = map_option (f k) (map_of al k)"
  by (induction al) auto

lemma map_of_filter_key:
  "map_of (filter (\<lambda>(k, v). P k) al) k = (if P k then map_of al k else None)"
  by (induction al) auto

lemma map_of_snoc:
  "map_of (al @ [(k, v)]) k' =
     (case map_of al k' of Some x \<Rightarrow> Some x | None \<Rightarrow> if k' = k then Some v else None)"
  by (induction al) auto

lemmas tbl = map_of_map_val map_of_filter_key map_of_snoc update_conv delete_conv

lemma ptr_node_connect_network:
  "node_connect_network n nic net s = Inr s' \<Longrightarrow>
   nic_pointer s (n, nic) = None \<and> nic_pointer s' = (nic_pointer s)((n, nic) := Some net)
   \<and> attached_nics s' = (attached_nics s)(net := insert (n, nic) (attached_nics s net))"
  unfolding node_connect_network_def nic_pointer_def attached_nics_def
  by (auto split: option.splits if_splits simp: tbl fun_eq_iff)

lemma sym_node_connect_network:
  assumes "nic_network_symmetric s" and "node_connect_network n nic net s = Inr s'"
  shows "nic_network_symmetric s'"
proof -
  note p = ptr_node_connect_network [OF assms(2)]
  have pre: "\<And>k l. (nic_pointer s k = Some l) = (k \<in> attached_nics s l)"
    using assms(1) unfolding nic_network_symmetric_def by blast
  have "(n, nic) \<notin> attached_nics s l" for l
    using pre [of "(n, nic)" l] p by simp
  then show ?thesis
    unfolding nic_network_symmetric_def using p pre by auto
qed

lemma ptr_node_detach_network:
  "node_detach_network n nic s = Inr s' \<Longrightarrow>
   nic_pointer s (n, nic) \<noteq> None
   \<and> nic_pointer s' = (nic_pointer s)((n, nic) := None)
   \<and> attached_nics s' =
       (\<lambda>l. if nic_pointer s (n, nic) = Some l then attached_nics s l - {(n, nic)}
            else attached_nics s l)"
  unfolding node_detach_network_def nic_pointer_def attached_nics_def
  by (auto split: option.splits if_splits simp: tbl fun_eq_iff)

lemma sym_node_detach_network:
  assumes "nic_network_symmetric s" and "node_detach_network n nic s = Inr s'"
  shows "nic_network_symmetric s'"
proof -
  note p = ptr_node_detach_network [OF assms(2)]
  have pre: "\<And>k l. (nic_pointer s k = Some l) = (k \<in> attached_nics s l)"
    using assms(1) unfolding nic_network_symmetric_def by blast
  show ?thesis
    unfolding nic_network_symmetric_def using p pre by auto
qed

lemma ptr_node_delete:
  "node_delete n s = Inr s' \<Longrightarrow>
   nic_pointer s' = (\<lambda>k. if fst k = n then None else nic_pointer s k)
   \<and> attached_nics s' = (\<lambda>net. {k \<in> attached_nics s net. fst k \<noteq> n})"
  unfolding node_delete_def nic_pointer_def attached_nics_def
  by (auto split: option.splits if_splits simp: tbl fun_eq_iff)

lemma sym_node_delete:
  assumes "nic_network_symmetric s" and "node_delete n s = Inr s'"
  shows "nic_network_symmetric s'"
proof -
  note p = ptr_node_delete [OF assms(2)]
  have pre: "\<And>k l. (nic_pointer s k = Some l) = (k \<in> attached_nics s l)"
    using assms(1) unfolding nic_network_symmetric_def by blast
  show ?thesis
    unfolding nic_network_symmetric_def using p pre by auto
qed

lemmas registry_calls =
  group_create_def group_delete_def user_create_def user_delete_def group_add_user_def
  group_remove_user_def project_create_def project_delete_def project_connect_node_def
  project_detach_node_def node_register_def node_register_nic_def node_delete_nic_def
  network_create_def network_delete_def headnode_create_def headnode_delete_def
  headnode_create_hnic_def headnode_delete_hnic_def headnode_connect_network_def
  headnode_detach_network_def switch_register_def switch_delete_def port_register_def
  port_delete_def port_connect_nic_def port_detach_nic_def

lemma frame_nic_pointer:
  "\<not> rewires_nics c \<Longrightarrow> exec c s = Inr s' \<Longrightarrow> nic_pointer s' = nic_pointer s"
  by (cases c)
    (auto simp add: registry_calls nic_pointer_def tbl fun_eq_iff
      split: option.splits if_splits)

lemma att_network_create:
  "network_create net p a s = Inr s' \<Longrightarrow> attached_nics s' = attached_nics s"
  by (auto simp add: network_create_def attached_nics_def map_of_snoc fun_eq_iff
      split: option.splits if_splits)

lemma att_network_delete:
  "network_delete net s = Inr s' \<Longrightarrow> attached_nics s' = attached_nics s"
  by (auto simp add: network_delete_def attached_nics_def delete_conv fun_eq_iff
      split: option.splits if_splits)

lemma att_headnode_delete:
  "headnode_delete h s = Inr s' \<Longrightarrow> attached_nics s' = attached_nics s"
  by (auto simp add: headnode_delete_def attached_nics_def map_of_map_val fun_eq_iff
      split: option.splits if_splits)

lemma att_headnode_connect_network:
  "headnode_connect_network h hnic net s = Inr s' \<Longrightarrow> attached_nics s' = attached_nics s"
  by (auto simp add: headnode_connect_network_def attached_nics_def update_conv fun_eq_iff
      split: option.splits if_splits)

lemma att_headnode_detach_network:
  "headnode_detach_network h hnic s = Inr s' \<Longrightarrow> attached_nics s' = attached_nics s"
  by (auto simp add: headnode_detach_network_def attached_nics_def map_of_map_val fun_eq_iff
      split: option.splits if_splits)

lemma frame_attached_nics:
  "\<not> rewires_nics c \<Longrightarrow> exec c s = Inr s' \<Longrightarrow> attached_nics s' = attached_nics s"
proof (cases c)
  case (NetworkCreate net p a)
  then show "exec c s = Inr s' \<Longrightarrow> ?thesis" by (simp add: att_network_create)
next
  case (NetworkDelete net)
  then show "exec c s = Inr s' \<Longrightarrow> ?thesis" by (simp add: att_network_delete)
next
  case (HeadnodeDelete h)
  then show "exec c s = Inr s' \<Longrightarrow> ?thesis" by (simp add: att_headnode_delete)
next
  case (HeadnodeConnectNetwork h hnic net)
  then show "exec c s = Inr s' \<Longrightarrow> ?thesis" by (simp add: att_headnode_connect_network)
next
  case (HeadnodeDetachNetwork h hnic)
  then show "exec c s = Inr s' \<Longrightarrow> ?thesis" by (simp add: att_headnode_detach_network)
qed (auto simp add: group_create_def group_delete_def user_create_def user_delete_def
      group_add_user_def group_remove_user_def project_create_def project_delete_def
      project_connect_node_def project_detach_node_def node_register_def
      node_register_nic_def node_delete_nic_def headnode_create_def
      headnode_create_hnic_def headnode_delete_hnic_def switch_register_def
      switch_delete_def port_register_def port_delete_def port_connect_nic_def
      port_detach_nic_def attached_nics_def
      split: option.splits if_splits)

lemma sym_exec:
  assumes "nic_network_symmetric s" and "exec c s = Inr s'"
  shows "nic_network_symmetric s'"
proof (cases "rewires_nics c")
  case False
  from frame_nic_pointer [OF False assms(2)] frame_attached_nics [OF False assms(2)] assms(1)
  show ?thesis by (simp add: nic_network_symmetric_def)
next
  case True
  then consider n nic net where "c = NodeConnectNetwork n nic net"
    | n nic where "c = NodeDetachNetwork n nic"
    | n where "c = NodeDelete n"
    by (cases c) simp_all
  then show ?thesis
  proof cases
    case 1
    with assms show ?thesis by (simp add: sym_node_connect_network)
  next
    case 2
    with assms show ?thesis by (simp add: sym_node_detach_network)
  next
    case 3
    with assms show ?thesis by (simp add: sym_node_delete)
  qed
qed

lemma sym_outcome:
  "nic_network_symmetric s \<Longrightarrow> nic_network_symmetric (snd (outcome c s))"
  by (cases "exec c s") (simp_all add: outcome_def sym_exec)

lemma reachable_symmetric: "reachable s \<Longrightarrow> nic_network_symmetric s"
proof (induction rule: reachable.induct)
  case start
  show ?case
    by (simp add: nic_network_symmetric_def nic_pointer_def attached_nics_def empty_registry_def)
next
  case (step s c)
  then show ?case by (simp add: sym_outcome)
qed

lemma reachable_after: "reachable s \<Longrightarrow> reachable (after cs s)"
  by (induction cs arbitrary: s) (simp_all add: reachable.step)

lemma outcome_failure_unchanged:
  "fst (outcome c s) \<noteq> None \<Longrightarrow> snd (outcome c s) = s"
  by (cases "exec c s") (simp_all add: outcome_def)

lemma map_of_None_notin: "map_of al k = None \<Longrightarrow> k \<notin> fst ` set al"
  by (simp add: map_of_eq_None_iff)

lemma distinct_exec:
  "node_labels_distinct s \<Longrightarrow> exec c s = Inr s' \<Longrightarrow> node_labels_distinct s'"
  by (cases c)
    (auto simp add: registry_calls node_delete_def node_connect_network_def
      node_detach_network_def node_labels_distinct_def distinct_update distinct_delete
      map_of_eq_None_iff
      split: option.splits if_splits)

lemma reachable_distinct: "reachable s \<Longrightarrow> node_labels_distinct s"
proof (induction rule: reachable.induct)
  case start
  show ?case by (simp add: node_labels_distinct_def empty_registry_def)
next
  case (step s c)
  then show ?case
    by (cases "exec c s") (simp_all add: outcome_def distinct_exec)
qed

lemma free_set:
  assumes "distinct (map fst al)"
  shows "set (map fst (filter (\<lambda>(n, q). q = None) al)) = {n. map_of al n = Some None}"
  using assms by (auto simp add: image_iff)


subsection \<open>Agreement with the unit tests\<close>

text \<open>
  The model raises what \<^verbatim>\<open>tests/unit/api.py\<close> expects, and nothing where the tests
  expect success: each list gives the error of every call of a test, in order.
\<close>

lemma registry_unit_tests_groups:
  "errors_of [GroupCreate ''acme-corp'', GroupCreate ''acme-corp''] empty_registry
     = [None, Some DuplicateError]"
  "errors_of [UserCreate ''alice'' ''secret'', GroupCreate ''acme-corp'',
              GroupAddUser ''acme-corp'' ''alice'', GroupAddUser ''acme-corp'' ''alice'']
     empty_registry = [None, None, None, Some DuplicateError]"
  "errors_of [UserCreate ''alice'' ''secret'', GroupCreate ''acme-corp'',
              GroupRemoveUser ''acme-corp'' ''alice''] empty_registry
     = [None, None, Some NotFoundError]"
  "errors_of [UserCreate ''bob'' ''foo'', UserDelete ''bob'', UserDelete ''bob'']
     empty_registry = [None, None, Some NotFoundError]"
  "errors_of [GroupCreate ''acme-corp'', ProjectCreate ''anvil-nextgen'' ''acme-corp'',
              ProjectCreate ''anvil-nextgen'' ''acme-corp''] empty_registry
     = [None, None, Some DuplicateError]"
  "errors_of [GroupCreate ''acme-corp'', ProjectCreate ''anvil-nextgen'' ''acme-corp'',
              ProjectDelete ''anvil-nextgen'', ProjectDelete ''anvil-nextgen'']
     empty_registry = [None, None, None, Some NotFoundError]"
  by code_simp+

lemma registry_unit_tests_nodes:
  "errors_of [NodeRegister ''node-99'', ProjectConnectNode ''anvil-nextgen'' ''node-99'']
     empty_registry = [None, Some NotFoundError]"
  "errors_of [GroupCreate ''acme-corp'', ProjectCreate ''anvil-nextgen'' ''acme-corp'',
              NodeRegister ''node-99'', ProjectDetachNode ''anvil-nextgen'' ''node-99'']
     empty_registry = [None, None, None, Some NotFoundError]"
  "errors_of [NodeRegister ''node-99'', NodeRegister ''node-99''] empty_registry
     = [None, Some DuplicateError]"
  "errors_of [NodeRegister ''node-99'', NodeDelete ''node-99'', NodeRegister ''node-99'']
     empty_registry = [None, None, None]"
  "errors_of [NodeRegister ''compute-01'',
              NodeRegisterNic ''compute-01'' ''01-eth0'' ''DE:AD:BE:EF:20:14'',
              NodeRegisterNic ''compute-01'' ''01-eth0'' ''DE:AD:BE:EF:20:15'']
     empty_registry = [None, None, Some DuplicateError]"
  "errors_of [NodeRegister ''compute-01'', NodeRegister ''compute-02'',
              NodeRegisterNic ''compute-01'' ''ipmi'' ''DE:AD:BE:EF:20:14'',
              NodeRegisterNic ''compute-02'' ''ipmi'' ''DE:AD:BE:EF:20:14'']
     empty_registry = [None, None, None, None]"
  "errors_of [NodeRegister ''compute-01'', NodeRegister ''compute-02'',
              NodeRegisterNic ''compute-01'' ''01-eth0'' ''DE:AD:BE:EF:20:14'',
              NodeDeleteNic ''compute-02'' ''01-eth0'']
     empty_registry = [None, None, None, Some NotFoundError]"
  by code_simp+

lemma registry_unit_tests_networks:
  "errors_of (connect_scenario @ [NodeConnectNetwork ''node-99'' ''99-eth0'' ''hammernet''])
     empty_registry = [None, None, None, None, None, None, None, Some DuplicateError]"
  "errors_of (connect_scenario @ [NetworkCreate ''hammernet2'' ''anvil-nextgen'' (Some ''102''),
              NodeConnectNetwork ''node-99'' ''99-eth0'' ''hammernet2''])
     empty_registry = [None, None, None, None, None, None, None, None, Some DuplicateError]"
  "errors_of (connect_scenario @ [NodeRegister ''node-98'',
              ProjectConnectNode ''anvil-nextgen'' ''node-98'',
              NodeConnectNetwork ''node-98'' ''99-eth0'' ''hammernet''])
     empty_registry = [None, None, None, None, None, None, None, None, None,
                       Some NotFoundError]"
  "errors_of (connect_scenario @ [NodeDetachNetwork ''node-99'' ''99-eth0'',
              NodeDetachNetwork ''node-99'' ''99-eth0''])
     empty_registry = [None, None, None, None, None, None, None, None, Some NotFoundError]"
  "errors_of [GroupCreate ''acme-code'', ProjectCreate ''anvil-nextgen'' ''acme-code'',
              ProjectCreate ''anvil-oldtimer'' ''acme-code'',
              NetworkCreate ''hammernet'' ''anvil-nextgen'' (Some ''101''),
              NetworkCreate ''hammernet'' ''anvil-oldtimer'' (Some ''102'')]
     empty_registry = [None, None, None, None, Some DuplicateError]"
  by code_simp+

lemma registry_unit_tests_headnodes:
  "errors_of [HeadnodeCreate ''hn-0'' ''anvil-nextgen''] empty_registry
     = [Some NotFoundError]"
  "errors_of [GroupCreate ''acme-code'', ProjectCreate ''anvil-nextgen'' ''acme-code'',
              HeadnodeCreate ''hn-0'' ''anvil-nextgen'', HeadnodeCreate ''hn-1'' ''anvil-nextgen'']
     empty_registry = [None, None, None, Some DuplicateError]"
  "errors_of [GroupCreate ''acme-code'', ProjectCreate ''anvil-nextgen'' ''acme-code'',
              ProjectCreate ''anvil-oldtimer'' ''acme-code'',
              HeadnodeCreate ''hn-0'' ''anvil-nextgen'', HeadnodeCreate ''hn-0'' ''anvil-oldtimer'']
     empty_registry = [None, None, None, None, Some DuplicateError]"
  "errors_of [GroupCreate ''acme-code'', ProjectCreate ''anvil-nextgen'' ''acme-code'',
              HeadnodeCreate ''hn-0'' ''anvil-nextgen'',
              HeadnodeCreateHnic ''hn-0'' ''hn-0-eth0'' ''DE:AD:BE:EF:20:14'',
              NetworkCreate ''hammernet'' ''anvil-nextgen'' (Some ''101''),
              HeadnodeConnectNetwork ''hn-0'' ''hn-0-eth0'' ''hammernet'',
              HeadnodeConnectNetwork ''hn-0'' ''hn-0-eth0'' ''hammernet'',
              HeadnodeDetachNetwork ''hn-0'' ''hn-0-eth0'',
              HeadnodeDetachNetwork ''hn-0'' ''hn-0-eth0'']
     empty_registry = [None, None, None, None, None, None, Some DuplicateError, None,
                       Some NotFoundError]"
  by code_simp+

lemma registry_unit_tests_ports:
  "errors_of [SwitchRegister ''bait-and'' ''big-iron'', SwitchRegister ''bait-and'' ''falling'']
     empty_registry = [None, Some DuplicateError]"
  "errors_of [SwitchRegister ''bait-and'' ''big-iron'', PortRegister ''bait-and'' ''3'',
              PortRegister ''bait-and'' ''3''] empty_registry
     = [None, None, Some DuplicateError]"
  "errors_of [PortRegister ''bait-and'' ''3''] empty_registry = [Some NotFoundError]"
  "errors_of (port_scenario @ [PortConnectNic ''bait-and'' ''3'' ''compute-01'' ''eth0''])
     empty_registry = [None, None, None, None, None, None, None, Some DuplicateError]"
  "errors_of (port_scenario @ [SwitchRegister ''-eroo'' ''big-iron'', PortRegister ''-eroo'' ''4'',
              PortConnectNic ''-eroo'' ''4'' ''compute-01'' ''eth0''])
     empty_registry = [None, None, None, None, None, None, None, None, None,
                       Some DuplicateError]"
  "errors_of (port_scenario @ [PortConnectNic ''bait-and'' ''3'' ''compute-02'' ''eth1''])
     empty_registry = [None, None, None, None, None, None, None, Some DuplicateError]"
  "errors_of (port_scenario @ [PortDetachNic ''bait-and'' ''3'', PortDetachNic ''bait-and'' ''3''])
     empty_registry = [None, None, None, None, None, None, None, None, Some NotFoundError]"
  by code_simp+

subsection \<open>Duplicates\<close>



subsection \<open>Nics and networks\<close>

text \<open>
  C6, on the registry modelled from the specification. In every graph that calls
  can lead to, a Nic points at a network exactly when that network's set of Nics holds
  it. A successful \<open>node_connect_network\<close> sets the pointer and adds the Nic to the
  set; a successful \<open>node_detach_network\<close> clears the pointer and leaves the Nic in no
  network's set; a call that raises changes neither.
\<close>

theorem nic_network_symmetry:
  assumes "reachable s"
  shows "(\<forall>k net. (nic_pointer s k = Some net) = (k \<in> attached_nics s net))
     \<and> (\<forall>s'. node_connect_network n nic net s = Inr s' \<longrightarrow>
           nic_pointer s' (n, nic) = Some net \<and> (n, nic) \<in> attached_nics s' net)
     \<and> (\<forall>s'. node_detach_network n nic s = Inr s' \<longrightarrow>
           nic_pointer s' (n, nic) = None \<and> (\<forall>l. (n, nic) \<notin> attached_nics s' l))
     \<and> (\<forall>c. fst (outcome c s) \<noteq> None \<longrightarrow> snd (outcome c s) = s)"
proof (intro conjI allI impI)
  fix k net'
  from reachable_symmetric [OF assms]
  show "(nic_pointer s k = Some net') = (k \<in> attached_nics s net')"
    unfolding nic_network_symmetric_def by blast
next
  fix s'
  assume c: "node_connect_network n nic net s = Inr s'"
  from ptr_node_connect_network [OF c]
  show "nic_pointer s' (n, nic) = Some net" and "(n, nic) \<in> attached_nics s' net"
    by simp_all
next
  fix s'
  assume d: "node_detach_network n nic s = Inr s'"
  from ptr_node_detach_network [OF d]
  show "nic_pointer s' (n, nic) = None" by simp
  have "nic_network_symmetric s'"
    using sym_node_detach_network [OF reachable_symmetric [OF assms] d] .
  then have "(nic_pointer s' (n, nic) = Some l) = ((n, nic) \<in> attached_nics s' l)" for l
    unfolding nic_network_symmetric_def by blast
  with \<open>nic_pointer s' (n, nic) = None\<close>
  show "\<And>l. (n, nic) \<notin> attached_nics s' l" by simp
next
  fix c
  assume "fst (outcome c s) \<noteq> None"
  then show "snd (outcome c s) = s" by (rule outcome_failure_unchanged)
qed

theorem nic_network_symmetry_witness:
  "nic_pointer (after connect_scenario empty_registry) (''node-99'', ''99-eth0'')
     = Some ''hammernet''
   \<and> (''node-99'', ''99-eth0'')
       \<in> attached_nics (after connect_scenario empty_registry) ''hammernet''"
proof -
  have r: "reachable (after connect_scenario empty_registry)"
    by (rule reachable_after) (rule reachable.start)
  have p: "nic_pointer (after connect_scenario empty_registry) (''node-99'', ''99-eth0'')
     = Some ''hammernet''"
    by code_simp
  from nic_network_symmetry [OF r] p show ?thesis by blast
qed

subsection \<open>Free nodes\<close>

text \<open>
  C8, on the registry modelled from the specification. In every graph that calls can
  lead to, \<open>list_free_nodes\<close> lists exactly the labels of the nodes that no project
  owns, each once, in ascending order; after registering \<open>master-control-program\<close>,
  \<open>robocop\<close> and \<open>data\<close> it is \<open>data\<close>, \<open>master-control-program\<close>, \<open>robocop\<close>.
\<close>

theorem list_free_nodes_exact_sorted:
  assumes "reachable s"
  shows "set (list_free_nodes s) = {n. map_of (nodes s) n = Some None}
     \<and> distinct (list_free_nodes s) \<and> sorted (list_free_nodes s)
     \<and> list_free_nodes (after free_nodes_scenario empty_registry)
         = [''data'', ''master-control-program'', ''robocop'']"
proof -
  have scenario: "list_free_nodes (after free_nodes_scenario empty_registry)
         = [''data'', ''master-control-program'', ''robocop'']"
    by code_simp
  from reachable_distinct [OF assms] have d: "distinct (map fst (nodes s))"
    by (simp add: node_labels_distinct_def)
  have exact: "set (list_free_nodes s) = {n. map_of (nodes s) n = Some None}"
    using free_set [OF d] by (simp add: list_free_nodes_def)
  have once: "distinct (list_free_nodes s)"
    using d by (simp add: list_free_nodes_def distinct_map_filter)
  have ascending: "sorted (list_free_nodes s)"
    by (simp add: list_free_nodes_def)
  show ?thesis by (intro conjI exact once ascending scenario)
qed

theorem list_free_nodes_exact_sorted_witness:
  "{n. map_of (nodes (after free_nodes_scenario empty_registry)) n = Some None}
     = set [''data'', ''master-control-program'', ''robocop'']"
proof -
  have r: "reachable (after free_nodes_scenario empty_registry)"
    by (rule reachable_after) (rule reachable.start)
  note t = list_free_nodes_exact_sorted [OF r]
  from t have v: "list_free_nodes (after free_nodes_scenario empty_registry)
         = [''data'', ''master-control-program'', ''robocop'']"
    by (elim conjE)
  from t have "set (list_free_nodes (after free_nodes_scenario empty_registry))
     = {n. map_of (nodes (after free_nodes_scenario empty_registry)) n = Some None}"
    by (elim conjE)
  then show ?thesis by (simp only: v)
qed

end
